theory Spec2Isabelle
  imports Complex_Main
begin

section \<open>Data model\<close>

text \<open>
  The order lifecycle and dispatch code of the delivery backend: the order controller
  (\<^verbatim>\<open>calculatePricing\<close>, \<^verbatim>\<open>createOrder\<close>, \<^verbatim>\<open>getOrders\<close>,
  \<^verbatim>\<open>updateOrderStatus\<close>, \<^verbatim>\<open>cancelOrder\<close>), the delivery controller
  (\<^verbatim>\<open>calculateDistance\<close>, \<^verbatim>\<open>getAvailableOrders\<close>, \<^verbatim>\<open>acceptOrder\<close>,
  \<^verbatim>\<open>pickupOrder\<close>, \<^verbatim>\<open>completeDelivery\<close>) and the pre-save hook of the Order
  model that keeps the status history.

  Conventions of the embedding.
  \<^item> A JavaScript \<^verbatim>\<open>Number\<close> is a \<^typ>\<open>real\<close>. The arithmetic of the pricing code
    (the item subtotals and \<^verbatim>\<open>calculatePricing\<close>) rounds every result to the nearest
    double, as the program does; the counters the database increments and the distances
    are computed exactly.
  \<^item> An ObjectId is a \<^typ>\<open>nat\<close>; a \<^verbatim>\<open>Date\<close> is a number of milliseconds, a
    \<^typ>\<open>nat\<close>. Every handler reads the clock as its argument \<open>now\<close>.
  \<^item> A collection is the list of its documents in storage order; a handler takes the
    database and returns its response together with the database it leaves.
  \<^item> A response that is not a success is a value of type \<open>error\<close>: one constructor
    for each \<^verbatim>\<open>res.status(4xx)\<close> of the handlers, and \<open>Thrown\<close> for an exception
    that reaches \<^verbatim>\<open>next(error)\<close>.
  \<^item> Socket events are emitted after the database writes and do not read or write the
    database; they are left out.
\<close>

type_synonym objectId = nat
type_synonym date = nat

datatype status =
    Pending | Confirmed | Preparing | Ready | Assigned
  | PickedUp | OnTheWay | Delivered | Cancelled | Rejected

datatype role = Customer | Restaurant | Driver | Admin

datatype paymentStatus = PaymentPending | PaymentCompleted | PaymentFailed | PaymentRefunded

datatype error =
    RestaurantNotAvailable      \<comment> \<open>400 Restaurant is not available for orders\<close>
  | InvalidPaymentMethod string \<comment> \<open>400 Invalid payment method\<close>
  | MenuItemNotAvailable objectId \<comment> \<open>400 Menu item is not available\<close>
  | MinimumOrderAmount real     \<comment> \<open>400 Minimum order amount is ...\<close>
  | OrderNotFound               \<comment> \<open>404 Order not found\<close>
  | NotAuthorized               \<comment> \<open>403 Not authorized\<close>
  | OrderCannotBeCancelled      \<comment> \<open>400 Order cannot be cancelled\<close>
  | NotAuthorizedToCancel       \<comment> \<open>403 Not authorized to cancel this order\<close>
  | MarkAvailableFirst          \<comment> \<open>400 Please mark yourself as available first\<close>
  | LocationRequired            \<comment> \<open>400 Current location is required\<close>
  | OrderNotReady               \<comment> \<open>400 Order is not ready for pickup\<close>
  | OrderAlreadyAssigned        \<comment> \<open>400 Order already assigned to another driver\<close>
  | StatusInvalidForPickup      \<comment> \<open>400 Order status invalid for pickup\<close>
  | Thrown                      \<comment> \<open>an exception, handed to next(error)\<close>

fun httpStatus :: "error \<Rightarrow> nat" where
  "httpStatus OrderNotFound = 404"
| "httpStatus NotAuthorized = 403"
| "httpStatus NotAuthorizedToCancel = 403"
| "httpStatus Thrown = 500"
| "httpStatus _ = 400"

record selectedOption =
  so_name :: string
  so_price :: real

record customization =
  c_name :: string
  selectedOptions :: "selectedOption list"

record orderItem =
  oi_menuItem :: objectId
  oi_name :: string
  oi_price :: real
  oi_quantity :: real
  oi_customizations :: "customization list"
  oi_specialInstructions :: string
  oi_subtotal :: real

record pricing =
  subtotal :: real
  deliveryFee :: real
  serviceFee :: real
  tax :: real
  discount :: real
  total :: real
  platformCommission :: real
  restaurantEarnings :: real
  driverEarnings :: real

text \<open>
  The process environment, as far as the code reads it. A variable that is not set is
  \<open>None\<close>; one that is set holds the number \<^verbatim>\<open>parseFloat\<close> reads from it.
\<close>

record env =
  SERVICE_FEE_RATE :: "real option"
  SURGE_MULTIPLIER :: "real option"
  COMMISSION_RATE :: "real option"

record payment =
  pay_method :: string
  p_status :: paymentStatus
  paidAt :: "date option"

record cancellation =
  reason :: string
  cancelledBy :: role
  cancelledAt :: date

record historyEntry =
  h_status :: status
  h_timestamp :: date

text \<open>
  The Order document. Of the schema's fields, the order number, the delivery address, the
  customer's name and phone, the estimated delivery time, the rating, the review and the
  promo code are left out: no handler below branches on them.
\<close>

record order =
  o_id :: objectId
  customer :: objectId
  restaurant :: objectId
  driver :: "objectId option"
  items :: "orderItem list"
  pricing :: pricing
  payment :: payment
  status :: status
  statusHistory :: "historyEntry list"
  acceptedAt :: "date option"
  preparedAt :: "date option"
  pickedUpAt :: "date option"
  deliveredAt :: "date option"
  isSurgeTime :: bool
  surgeMultiplier :: real
  cancellation :: "cancellation option"
  createdAt :: date

text \<open>
  The Restaurant document, as far as the handlers read or write it. \<open>location\<close> is
  \<^verbatim>\<open>location.coordinates\<close>, the pair (longitude, latitude).
\<close>

record restaurantDoc =
  r_id :: objectId
  owner :: objectId
  location :: "real \<times> real"
  minimumOrder :: real
  r_deliveryFee :: real
  isActive :: bool
  isOpen :: bool
  stats_totalOrders :: real
  stats_totalRevenue :: real

text \<open>
  The User document with its driver profile. A counter that is missing in the database
  counts as 0, which is how \<^verbatim>\<open>$inc\<close> reads it.
\<close>

record user =
  u_id :: objectId
  u_role :: role
  isAvailable :: bool
  totalDeliveries :: real

record menuItem =
  m_id :: objectId
  m_name :: string
  m_price :: real
  m_isAvailable :: bool
  m_totalOrders :: real
  m_popularity :: real

record db =
  orders :: "order list"
  restaurants :: "restaurantDoc list"
  users :: "user list"
  menuItems :: "menuItem list"

text \<open>\<^verbatim>\<open>req.user\<close>, the authenticated caller.\<close>

record reqUser =
  req_id :: objectId
  req_role :: role

type_synonym 'a response = "(error + 'a) \<times> db"

section \<open>Collections\<close>

definition findOrder :: "db \<Rightarrow> objectId \<Rightarrow> order option" where
  "findOrder d i = find (\<lambda>x. o_id x = i) (orders d)"

definition findRestaurant :: "db \<Rightarrow> objectId \<Rightarrow> restaurantDoc option" where
  "findRestaurant d i = find (\<lambda>x. r_id x = i) (restaurants d)"

definition findUser :: "db \<Rightarrow> objectId \<Rightarrow> user option" where
  "findUser d i = find (\<lambda>x. u_id x = i) (users d)"

definition findMenuItem :: "db \<Rightarrow> objectId \<Rightarrow> menuItem option" where
  "findMenuItem d i = find (\<lambda>x. m_id x = i) (menuItems d)"

text \<open>\<^verbatim>\<open>Model.findByIdAndUpdate(id, update)\<close>: the document with that id is updated, if any.\<close>

definition updateUser :: "objectId \<Rightarrow> (user \<Rightarrow> user) \<Rightarrow> db \<Rightarrow> db" where
  "updateUser i f d = d\<lparr>users := map (\<lambda>x. if u_id x = i then f x else x) (users d)\<rparr>"

definition updateRestaurant :: "objectId \<Rightarrow> (restaurantDoc \<Rightarrow> restaurantDoc) \<Rightarrow> db \<Rightarrow> db" where
  "updateRestaurant i f d =
     d\<lparr>restaurants := map (\<lambda>x. if r_id x = i then f x else x) (restaurants d)\<rparr>"

definition updateMenuItem :: "objectId \<Rightarrow> (menuItem \<Rightarrow> menuItem) \<Rightarrow> db \<Rightarrow> db" where
  "updateMenuItem i f d =
     d\<lparr>menuItems := map (\<lambda>x. if m_id x = i then f x else x) (menuItems d)\<rparr>"

definition arrayIncludes :: "'a list \<Rightarrow> 'a \<Rightarrow> bool" where
  "arrayIncludes xs x = (x \<in> set xs)"

section \<open>The Order model: the pre-save hook of the status history\<close>

text \<open>
  \<^verbatim>\<open>if (this.isModified('status')) this.statusHistory.push({status, timestamp: new Date()})\<close>.
  Change tracking marks a path of a loaded document as modified when it is assigned a
  value that differs from the loaded one. On a new document only the paths the
  constructor was given are marked; \<^verbatim>\<open>createOrder\<close> gives no status (the schema default
  \<^verbatim>\<open>pending\<close> fills it in), so the hook sees no modification there.
\<close>

definition isModified_status :: "order \<Rightarrow> order \<Rightarrow> bool" where
  "isModified_status loaded doc = (status doc \<noteq> status loaded)"

definition pre_save_statusHistory :: "bool \<Rightarrow> date \<Rightarrow> order \<Rightarrow> order" where
  "pre_save_statusHistory modified now doc =
     (if modified
      then doc\<lparr>statusHistory := statusHistory doc @ [\<lparr>h_status = status doc, h_timestamp = now\<rparr>]\<rparr>
      else doc)"

text \<open>\<^verbatim>\<open>order.save()\<close> of a document loaded as \<open>loaded\<close> and since changed to \<open>doc\<close>.\<close>

definition save :: "date \<Rightarrow> order \<Rightarrow> order \<Rightarrow> db \<Rightarrow> order \<times> db" where
  "save now loaded doc d =
     (let doc' = pre_save_statusHistory (isModified_status loaded doc) now doc
      in (doc', d\<lparr>orders := map (\<lambda>x. if o_id x = o_id doc' then doc' else x) (orders d)\<rparr>))"

section \<open>The order controller: status updates and cancellation\<close>

definition stampTimestamps :: "status \<Rightarrow> date \<Rightarrow> order \<Rightarrow> order" where
  "stampTimestamps st now o0 =
     (let o1 = (if st = Confirmed then o0\<lparr>acceptedAt := Some now\<rparr> else o0);
          o2 = (if st = Ready then o1\<lparr>preparedAt := Some now\<rparr> else o1);
          o3 = (if st = PickedUp then o2\<lparr>pickedUpAt := Some now\<rparr> else o2)
      in if st = Delivered
         then o3\<lparr>deliveredAt := Some now,
                 payment := (payment o3)\<lparr>p_status := PaymentCompleted, paidAt := Some now\<rparr>\<rparr>
         else o3)"

text \<open>
  \<^verbatim>\<open>updateOrderStatus\<close> (PUT /api/orders/:id/status). The requested status is a value of
  the schema's enumeration.
\<close>

definition updateOrderStatus :: "db \<Rightarrow> reqUser \<Rightarrow> objectId \<Rightarrow> status \<Rightarrow> date \<Rightarrow> order response" where
  "updateOrderStatus d u oid st now =
     (case findOrder d oid of
        None \<Rightarrow> (Inl OrderNotFound, d)
      | Some ord \<Rightarrow>
          (case findRestaurant d (restaurant ord) of
             None \<Rightarrow> (Inl Thrown, d)
           | Some rest \<Rightarrow>
               if arrayIncludes [Confirmed, Preparing, Ready, Rejected] st \<and> owner rest \<noteq> req_id u
               then (Inl NotAuthorized, d)
               else if arrayIncludes [PickedUp, OnTheWay, Delivered] st \<and> driver ord \<noteq> Some (req_id u)
               then (Inl NotAuthorized, d)
               else (case save now ord (stampTimestamps st now (ord\<lparr>status := st\<rparr>)) d of
                       (ord', d') \<Rightarrow> (Inr ord', d'))))"

text \<open>\<^verbatim>\<open>cancelOrder\<close> (PUT /api/orders/:id/cancel).\<close>

definition cancelOrder :: "db \<Rightarrow> reqUser \<Rightarrow> objectId \<Rightarrow> string \<Rightarrow> date \<Rightarrow> order response" where
  "cancelOrder d u oid why now =
     (case findOrder d oid of
        None \<Rightarrow> (Inl OrderNotFound, d)
      | Some ord \<Rightarrow>
          if arrayIncludes [Delivered, Cancelled] (status ord) then (Inl OrderCannotBeCancelled, d)
          else
            (case findRestaurant d (restaurant ord) of
               None \<Rightarrow> (Inl Thrown, d)
             | Some rest \<Rightarrow>
                 (let isCustomer = (customer ord = req_id u);
                      isRestaurant = (owner rest = req_id u)
                  in if \<not> isCustomer \<and> \<not> isRestaurant \<and> req_role u \<noteq> Admin
                     then (Inl NotAuthorizedToCancel, d)
                     else (case save now ord
                                 (ord\<lparr>status := Cancelled,
                                      cancellation := Some \<lparr>reason = why,
                                        cancelledBy = (if isCustomer then Customer
                                                       else if isRestaurant then Restaurant
                                                       else Admin),
                                        cancelledAt = now\<rparr>\<rparr>) d of
                             (ord', d') \<Rightarrow> (Inr ord', d')))))"

section \<open>Binary64 arithmetic\<close>

text \<open>
  \<open>fl x\<close> is the double nearest to \<open>x\<close>: the magnitude is scaled by powers of two
  into the interval from \<open>2^52\<close> to \<open>2^53\<close>, rounded to an integer, ties to the even
  one, and scaled back. 1126 scaling steps reach every magnitude from \<open>2^-1074\<close> up to
  \<open>2^1024\<close>, the range of the finite doubles. The model keeps 53 bits below
  \<open>2^-1022\<close> too and has no infinity, so it is IEEE 754 arithmetic for results in the
  normal range, where amounts of money lie.
\<close>

definition roundHalfEven :: "real \<Rightarrow> int" where
  "roundHalfEven x =
     (let f = \<lfloor>x\<rfloor>; r = x - of_int f
      in if r < 1 / 2 then f
         else if 1 / 2 < r then f + 1
         else if even f then f else f + 1)"

fun normalise :: "nat \<Rightarrow> real \<Rightarrow> int \<Rightarrow> real \<times> int" where
  "normalise 0 m e = (m, e)"
| "normalise (Suc n) m e =
     (if m < 2 ^ 52 then normalise n (2 * m) (e - 1)
      else if 2 ^ 53 \<le> m then normalise n (m / 2) (e + 1)
      else (m, e))"

definition pow2 :: "int \<Rightarrow> real" where
  "pow2 e = (if 0 \<le> e then 2 ^ nat e else 1 / 2 ^ nat (- e))"

definition fl :: "real \<Rightarrow> real" where
  "fl x =
     (if x = 0 then 0
      else (case normalise 1126 \<bar>x\<bar> 0 of
              (m, e) \<Rightarrow> sgn x * of_int (roundHalfEven m) * pow2 e))"

section \<open>Pricing\<close>

text \<open>
  \<^verbatim>\<open>parseFloat(process.env.X || d)\<close>: the variable when it is set, else the default. The
  defaults are the doubles the literals 0.08, 1.5 and 0.20 denote.
\<close>

definition envOr :: "real option \<Rightarrow> real \<Rightarrow> real" where
  "envOr v d = (case v of None \<Rightarrow> d | Some x \<Rightarrow> x)"

definition serviceFeeRate :: "env \<Rightarrow> real" where
  "serviceFeeRate e = envOr (SERVICE_FEE_RATE e) (fl 0.08)"

definition surgeMultiplierOf :: "env \<Rightarrow> real" where
  "surgeMultiplierOf e = envOr (SURGE_MULTIPLIER e) 1.5"

definition commissionRate :: "env \<Rightarrow> real" where
  "commissionRate e = envOr (COMMISSION_RATE e) (fl 0.20)"

text \<open>\<^verbatim>\<open>items.reduce((sum, item) => sum + item.subtotal, 0)\<close>\<close>

definition reduceSubtotal :: "orderItem list \<Rightarrow> real" where
  "reduceSubtotal its = foldl (\<lambda>sum item. fl (sum + oi_subtotal item)) 0 its"

definition calculatePricing :: "env \<Rightarrow> orderItem list \<Rightarrow> real \<Rightarrow> bool \<Rightarrow> pricing" where
  "calculatePricing e its fee isSurge =
     (let subtotal = reduceSubtotal its;
          serviceFee = fl (subtotal * serviceFeeRate e);
          surgeMultiplier = (if isSurge then surgeMultiplierOf e else 1.0);
          adjustedDeliveryFee = fl (fee * surgeMultiplier);
          total = fl (fl (subtotal + adjustedDeliveryFee) + serviceFee);
          rate = commissionRate e;
          platformCommission = fl (fl (subtotal * rate) + serviceFee);
          restaurantEarnings = fl (subtotal - fl (subtotal * rate));
          driverEarnings = adjustedDeliveryFee
      in \<lparr> subtotal = subtotal,
           deliveryFee = adjustedDeliveryFee,
           serviceFee = serviceFee,
           tax = 0,
           discount = 0,
           total = total,
           platformCommission = platformCommission,
           restaurantEarnings = restaurantEarnings,
           driverEarnings = driverEarnings \<rparr>)"

section \<open>The order controller: placement and listing\<close>

record itemRequest =
  ir_menuItem :: objectId
  ir_quantity :: real
  ir_customizations :: "customization list"
  ir_specialInstructions :: string

record orderRequest =
  rq_restaurant :: objectId
  rq_items :: "itemRequest list"
  rq_paymentMethod :: string
  rq_isSurgeTime :: bool

text \<open>
  The item's subtotal: \<^verbatim>\<open>menuItem.price * item.quantity\<close>, then for every selected
  option of every customization \<^verbatim>\<open>itemPrice += option.price * item.quantity\<close>.
\<close>

definition itemPrice :: "real \<Rightarrow> itemRequest \<Rightarrow> real" where
  "itemPrice price item =
     foldl (\<lambda>acc custom.
              foldl (\<lambda>acc' opt. fl (acc' + fl (so_price opt * ir_quantity item))) acc
                (selectedOptions custom))
           (fl (price * ir_quantity item)) (ir_customizations item)"

text \<open>The loop over the requested items; it returns at the first item that is not available.\<close>

fun buildOrderItems :: "db \<Rightarrow> itemRequest list \<Rightarrow> error + orderItem list" where
  "buildOrderItems d [] = Inr []"
| "buildOrderItems d (item # rest) =
     (case findMenuItem d (ir_menuItem item) of
        None \<Rightarrow> Inl (MenuItemNotAvailable (ir_menuItem item))
      | Some mi \<Rightarrow>
          if \<not> m_isAvailable mi then Inl (MenuItemNotAvailable (ir_menuItem item))
          else (case buildOrderItems d rest of
                  Inl e \<Rightarrow> Inl e
                | Inr ois \<Rightarrow>
                    Inr (\<lparr> oi_menuItem = m_id mi, oi_name = m_name mi, oi_price = m_price mi,
                           oi_quantity = ir_quantity item,
                           oi_customizations = ir_customizations item,
                           oi_specialInstructions = ir_specialInstructions item,
                           oi_subtotal = itemPrice (m_price mi) item \<rparr> # ois)))"

text \<open>
  \<^verbatim>\<open>Order.create\<close>: the new document gets the id \<open>newId\<close> and is validated against the
  schema (every quantity at least 1; the surge multiplier a number, which
  \<^verbatim>\<open>parseFloat(process.env.SURGE_MULTIPLIER)\<close> is not when the variable is not set), the
  pre-save hook runs, and the document is appended to the collection.
\<close>

definition createDoc :: "date \<Rightarrow> order \<Rightarrow> db \<Rightarrow> (order \<times> db) option" where
  "createDoc now doc d =
     (if findOrder d (o_id doc) \<noteq> None then None
      else if \<not> list_all (\<lambda>it. 1 \<le> oi_quantity it) (items doc) then None
      else (let doc' = pre_save_statusHistory False now doc
            in Some (doc', d\<lparr>orders := orders d @ [doc']\<rparr>)))"

text \<open>The popularity counters of the ordered menu items, updated after the order is stored.\<close>

definition bumpPopularity :: "orderItem list \<Rightarrow> db \<Rightarrow> db" where
  "bumpPopularity its d =
     foldl (\<lambda>d' it. updateMenuItem (oi_menuItem it)
                      (\<lambda>m. m\<lparr>m_totalOrders := m_totalOrders m + oi_quantity it,
                              m_popularity := m_popularity m + oi_quantity it\<rparr>) d') d its"

text \<open>\<^verbatim>\<open>createOrder\<close> (POST /api/orders).\<close>

definition createOrder ::
  "env \<Rightarrow> db \<Rightarrow> reqUser \<Rightarrow> orderRequest \<Rightarrow> objectId \<Rightarrow> date \<Rightarrow> order response" where
  "createOrder e d u rq newId now =
     (case findRestaurant d (rq_restaurant rq) of
        None \<Rightarrow> (Inl RestaurantNotAvailable, d)
      | Some rest \<Rightarrow>
          if \<not> isActive rest \<or> \<not> isOpen rest then (Inl RestaurantNotAvailable, d)
          else if \<not> arrayIncludes [''card'', ''cash'', ''wallet''] (rq_paymentMethod rq)
          then (Inl (InvalidPaymentMethod (rq_paymentMethod rq)), d)
          else
            (case buildOrderItems d (rq_items rq) of
               Inl err \<Rightarrow> (Inl err, d)
             | Inr orderItems \<Rightarrow>
                 (let pr = calculatePricing e orderItems (r_deliveryFee rest) (rq_isSurgeTime rq)
                  in if subtotal pr < minimumOrder rest
                     then (Inl (MinimumOrderAmount (minimumOrder rest)), d)
                     else
                       (case (if rq_isSurgeTime rq then SURGE_MULTIPLIER e else Some 1.0) of
                          None \<Rightarrow> (Inl Thrown, d)
                        | Some mult \<Rightarrow>
                            (case createDoc now
                                    \<lparr> o_id = newId, customer = req_id u,
                                      restaurant = rq_restaurant rq, driver = None,
                                      items = orderItems, pricing = pr,
                                      payment = \<lparr>pay_method = rq_paymentMethod rq,
                                                 p_status = PaymentPending, paidAt = None\<rparr>,
                                      status = Pending, statusHistory = [],
                                      acceptedAt = None, preparedAt = None,
                                      pickedUpAt = None, deliveredAt = None,
                                      isSurgeTime = rq_isSurgeTime rq, surgeMultiplier = mult,
                                      cancellation = None, createdAt = now \<rparr> d of
                               None \<Rightarrow> (Inl Thrown, d)
                             | Some (ord, d') \<Rightarrow> (Inr ord, bumpPopularity orderItems d'))))))"

text \<open>
  \<^verbatim>\<open>getOrders\<close> (GET /api/orders). The query object holds the conditions the handler
  sets; a condition that is not set matches every order. Of the response, the page count
  (the total divided by the limit, rounded up) is left out.
\<close>

record query =
  q_customer :: "objectId option"
  q_restaurant :: "objectId option"
  q_driver :: "objectId option"
  q_status :: "status option"

definition matches :: "query \<Rightarrow> order \<Rightarrow> bool" where
  "matches q x =
     ((case q_customer q of None \<Rightarrow> True | Some c \<Rightarrow> customer x = c)
      \<and> (case q_restaurant q of None \<Rightarrow> True | Some r \<Rightarrow> restaurant x = r)
      \<and> (case q_driver q of None \<Rightarrow> True | Some dr \<Rightarrow> driver x = Some dr)
      \<and> (case q_status q of None \<Rightarrow> True | Some st \<Rightarrow> status x = st))"

definition roleQuery :: "db \<Rightarrow> reqUser \<Rightarrow> query" where
  "roleQuery d u =
     (let q = \<lparr>q_customer = None, q_restaurant = None, q_driver = None, q_status = None\<rparr>
      in if req_role u = Customer then q\<lparr>q_customer := Some (req_id u)\<rparr>
         else if req_role u = Restaurant then
           (case find (\<lambda>r. owner r = req_id u) (restaurants d) of
              Some rest \<Rightarrow> q\<lparr>q_restaurant := Some (r_id rest)\<rparr>
            | None \<Rightarrow> q)
         else if req_role u = Driver then q\<lparr>q_driver := Some (req_id u)\<rparr>
         else q)"

text \<open>
  The cursor: \<^verbatim>\<open>.sort('-createdAt').skip(skip).limit(limit)\<close>. The database refuses a
  negative skip; a limit of 0 is no limit, and a negative limit counts as its absolute
  value. Orders created at the same time keep their storage order.
\<close>

definition sortSkipLimit :: "int \<Rightarrow> int \<Rightarrow> order list \<Rightarrow> order list option" where
  "sortSkipLimit skip lmt xs =
     (if skip < 0 then None
      else (let srt = sort_key (\<lambda>x. - int (createdAt x)) xs;
                skipped = drop (nat skip) srt
            in Some (if lmt = 0 then skipped else take (nat \<bar>lmt\<bar>) skipped)))"

record listing =
  l_count :: nat
  l_total :: nat
  l_page :: int
  l_data :: "order list"

definition getOrders ::
  "db \<Rightarrow> reqUser \<Rightarrow> status option \<Rightarrow> int option \<Rightarrow> int option \<Rightarrow> error + listing" where
  "getOrders d u st page limit =
     (let pg = (case page of None \<Rightarrow> 1 | Some p \<Rightarrow> p);
          lmt = (case limit of None \<Rightarrow> 20 | Some l \<Rightarrow> l);
          q0 = roleQuery d u;
          q = (case st of None \<Rightarrow> q0 | Some s \<Rightarrow> q0\<lparr>q_status := Some s\<rparr>);
          skip = (pg - 1) * lmt
      in case sortSkipLimit skip lmt (filter (matches q) (orders d)) of
           None \<Rightarrow> Inl Thrown
         | Some os \<Rightarrow>
             Inr \<lparr> l_count = length os,
                   l_total = length (filter (matches q) (orders d)),
                   l_page = pg,
                   l_data = os \<rparr>)"

section \<open>The delivery controller\<close>

text \<open>\<^verbatim>\<open>Math.atan2(y, x)\<close>, the angle of the point (x, y).\<close>

definition atan2 :: "real \<Rightarrow> real \<Rightarrow> real" where
  "atan2 y x =
     (if 0 < x then arctan (y / x)
      else if x < 0 then (if 0 \<le> y then arctan (y / x) + pi else arctan (y / x) - pi)
      else if 0 < y then pi / 2
      else if y < 0 then - (pi / 2)
      else 0)"

text \<open>\<^verbatim>\<open>calculateDistance\<close>, the haversine formula, in kilometres.\<close>

definition calculateDistance :: "real \<Rightarrow> real \<Rightarrow> real \<Rightarrow> real \<Rightarrow> real" where
  "calculateDistance lat1 lon1 lat2 lon2 =
     (let R = 6371;
          dLat = (lat2 - lat1) * pi / 180;
          dLon = (lon2 - lon1) * pi / 180;
          a = sin (dLat / 2) * sin (dLat / 2)
              + cos (lat1 * pi / 180) * cos (lat2 * pi / 180) * sin (dLon / 2) * sin (dLon / 2);
          c = 2 * atan2 (sqrt a) (sqrt (1 - a))
      in R * c)"

text \<open>
  The query \<^verbatim>\<open>Order.find({status: 'ready', driver: null}).limit(20)\<close>: the first 20
  matching documents in storage order.
\<close>

definition readyUnassigned :: "order \<Rightarrow> bool" where
  "readyUnassigned x = (status x = Ready \<and> driver x = None)"

definition findReadyOrders :: "db \<Rightarrow> order list" where
  "findReadyOrders d = take 20 (filter readyUnassigned (orders d))"

text \<open>
  The distance from the driver to the order's restaurant:
  \<^verbatim>\<open>order.restaurant.location.coordinates[1]\<close> is the latitude, \<^verbatim>\<open>[0]\<close> the longitude.
  Populating a restaurant that is not in the database gives null, and reading its
  location throws.
\<close>

definition distanceTo :: "db \<Rightarrow> real \<Rightarrow> real \<Rightarrow> order \<Rightarrow> real option" where
  "distanceTo d lat lng x =
     (case findRestaurant d (restaurant x) of
        None \<Rightarrow> None
      | Some rest \<Rightarrow> Some (calculateDistance lat lng (snd (location rest)) (fst (location rest))))"

fun withDistance :: "db \<Rightarrow> real \<Rightarrow> real \<Rightarrow> order list \<Rightarrow> (order \<times> real) list option" where
  "withDistance d lat lng [] = Some []"
| "withDistance d lat lng (x # xs) =
     (case distanceTo d lat lng x of
        None \<Rightarrow> None
      | Some km \<Rightarrow>
          (case withDistance d lat lng xs of
             None \<Rightarrow> None
           | Some rest \<Rightarrow> Some ((x, km) # rest)))"

text \<open>
  \<^verbatim>\<open>getAvailableOrders\<close> (GET /api/delivery/available). The query parameters
  \<^verbatim>\<open>lat\<close> and \<^verbatim>\<open>lng\<close> are \<open>None\<close> when missing. \<^verbatim>\<open>Array.prototype.sort\<close> is a
  stable sort, here by the distance.
\<close>

definition getAvailableOrders ::
  "db \<Rightarrow> reqUser \<Rightarrow> real option \<Rightarrow> real option \<Rightarrow> error + (order \<times> real) list" where
  "getAvailableOrders d u lat lng =
     (case findUser d (req_id u) of
        None \<Rightarrow> Inl Thrown
      | Some drv \<Rightarrow>
          if \<not> isAvailable drv then Inl MarkAvailableFirst
          else
            (case (lat, lng) of
               (Some la, Some lo) \<Rightarrow>
                 (case withDistance d la lo (findReadyOrders d) of
                    None \<Rightarrow> Inl Thrown
                  | Some ods \<Rightarrow> Inr (sort_key snd (filter (\<lambda>od. snd od \<le> 10) ods)))
             | _ \<Rightarrow> Inl LocationRequired))"

text \<open>\<^verbatim>\<open>acceptOrder\<close> (POST /api/delivery/accept/:orderId).\<close>

definition acceptOrder :: "db \<Rightarrow> reqUser \<Rightarrow> objectId \<Rightarrow> date \<Rightarrow> order response" where
  "acceptOrder d u oid now =
     (case findOrder d oid of
        None \<Rightarrow> (Inl OrderNotFound, d)
      | Some ord \<Rightarrow>
          if status ord \<noteq> Ready then (Inl OrderNotReady, d)
          else if driver ord \<noteq> None then (Inl OrderAlreadyAssigned, d)
          else (case save now ord (ord\<lparr>driver := Some (req_id u), status := Assigned\<rparr>) d of
                  (ord', d') \<Rightarrow>
                    (Inr ord', updateUser (req_id u) (\<lambda>x. x\<lparr>isAvailable := False\<rparr>) d')))"

text \<open>
  \<^verbatim>\<open>pickupOrder\<close> (PUT /api/delivery/:orderId/pickup). \<^verbatim>\<open>order.driver.toString()\<close>
  throws when the order has no driver.
\<close>

definition pickupOrder :: "db \<Rightarrow> reqUser \<Rightarrow> objectId \<Rightarrow> date \<Rightarrow> order response" where
  "pickupOrder d u oid now =
     (case findOrder d oid of
        None \<Rightarrow> (Inl OrderNotFound, d)
      | Some ord \<Rightarrow>
          (case driver ord of
             None \<Rightarrow> (Inl Thrown, d)
           | Some drv \<Rightarrow>
               if drv \<noteq> req_id u then (Inl NotAuthorized, d)
               else if status ord \<noteq> Assigned then (Inl StatusInvalidForPickup, d)
               else (case save now ord (ord\<lparr>status := PickedUp, pickedUpAt := Some now\<rparr>) d of
                       (ord', d') \<Rightarrow> (Inr ord', d'))))"

text \<open>\<^verbatim>\<open>completeDelivery\<close> (PUT /api/delivery/:orderId/complete).\<close>

definition completeDelivery :: "db \<Rightarrow> reqUser \<Rightarrow> objectId \<Rightarrow> date \<Rightarrow> order response" where
  "completeDelivery d u oid now =
     (case findOrder d oid of
        None \<Rightarrow> (Inl OrderNotFound, d)
      | Some ord \<Rightarrow>
          (case driver ord of
             None \<Rightarrow> (Inl Thrown, d)
           | Some drv \<Rightarrow>
               if drv \<noteq> req_id u then (Inl NotAuthorized, d)
               else
                 (case save now ord
                         (ord\<lparr>status := Delivered, deliveredAt := Some now,
                              payment := (payment ord)\<lparr>p_status := PaymentCompleted,
                                                       paidAt := Some now\<rparr>\<rparr>) d of
                    (ord', d1) \<Rightarrow>
                      (let d2 = updateUser (req_id u)
                                  (\<lambda>x. x\<lparr>totalDeliveries := totalDeliveries x + 1,
                                          isAvailable := True\<rparr>) d1;
                           d3 = updateRestaurant (restaurant ord')
                                  (\<lambda>r. r\<lparr>stats_totalOrders := stats_totalOrders r + 1,
                                          stats_totalRevenue :=
                                            stats_totalRevenue r + restaurantEarnings (pricing ord')\<rparr>) d2
                       in (Inr ord', d3)))))"

section \<open>The candidate query as the specification words it\<close>


text \<open>
  The distance of an order's restaurant as a number (0 when the restaurant is missing,
  in which case the query throws and returns no list).
\<close>

definition kmOf :: "db \<Rightarrow> real \<Rightarrow> real \<Rightarrow> order \<Rightarrow> real" where
  "kmOf d la lo x = (case distanceTo d la lo x of None \<Rightarrow> 0 | Some k \<Rightarrow> k)"

section \<open>The routes that write an order\<close>

text \<open>
  The requests that load an order, change it and save it:
  PUT /api/orders/:id/status, PUT /api/orders/:id/cancel, POST /api/delivery/accept/:id,
  PUT /api/delivery/:id/pickup and PUT /api/delivery/:id/complete.
\<close>

datatype action = UpdateStatus status | Cancel string | Accept | Pickup | Complete

definition perform :: "action \<Rightarrow> db \<Rightarrow> reqUser \<Rightarrow> objectId \<Rightarrow> date \<Rightarrow> order response" where
  "perform a d u oid now =
     (case a of
        UpdateStatus st \<Rightarrow> updateOrderStatus d u oid st now
      | Cancel why \<Rightarrow> cancelOrder d u oid why now
      | Accept \<Rightarrow> acceptOrder d u oid now
      | Pickup \<Rightarrow> pickupOrder d u oid now
      | Complete \<Rightarrow> completeDelivery d u oid now)"

text \<open>The status each request assigns before it saves.\<close>

definition statusSetBy :: "action \<Rightarrow> status" where
  "statusSetBy a =
     (case a of
        UpdateStatus st \<Rightarrow> st
      | Cancel why \<Rightarrow> Cancelled
      | Accept \<Rightarrow> Assigned
      | Pickup \<Rightarrow> PickedUp
      | Complete \<Rightarrow> Delivered)"

text \<open>A sequence of requests on one order; it stops at the first that fails.\<close>

fun runSteps :: "db \<Rightarrow> objectId \<Rightarrow> (action \<times> reqUser \<times> date) list \<Rightarrow> db option" where
  "runSteps d oid [] = Some d"
| "runSteps d oid ((a, u, t) # rest) =
     (case perform a d u oid t of
        (Inl err, d') \<Rightarrow> None
      | (Inr ord', d') \<Rightarrow> runSteps d' oid rest)"

text \<open>
  The entries the pre-save hook appends over a sequence of successful requests, from
  the status the order starts in: one for every request that changes the status.
\<close>

fun loggedEntries :: "status \<Rightarrow> (action \<times> reqUser \<times> date) list \<Rightarrow> historyEntry list" where
  "loggedEntries s [] = []"
| "loggedEntries s ((a, u, t) # rest) =
     (if statusSetBy a = s then [] else [\<lparr>h_status = statusSetBy a, h_timestamp = t\<rparr>])
       @ loggedEntries (statusSetBy a) rest"

text \<open>
  The full lifecycle of an order: the customer places it at time \<open>t0\<close>; the restaurant's
  owner confirms it, prepares it and marks it ready at \<open>t1\<close>, \<open>t2\<close>, \<open>t3\<close>; the driver
  accepts it, picks it up and completes the delivery at \<open>t4\<close>, \<open>t5\<close>, \<open>t6\<close>.
\<close>

definition lifecycleSteps ::
  "reqUser \<Rightarrow> reqUser \<Rightarrow> date \<Rightarrow> date \<Rightarrow> date \<Rightarrow> date \<Rightarrow> date \<Rightarrow> date
     \<Rightarrow> (action \<times> reqUser \<times> date) list" where
  "lifecycleSteps own drv t1 t2 t3 t4 t5 t6 =
     [(UpdateStatus Confirmed, own, t1), (UpdateStatus Preparing, own, t2),
      (UpdateStatus Ready, own, t3), (Accept, drv, t4), (Pickup, drv, t5), (Complete, drv, t6)]"

definition fullLifecycle ::
  "env \<Rightarrow> db \<Rightarrow> reqUser \<Rightarrow> orderRequest \<Rightarrow> objectId \<Rightarrow> date
     \<Rightarrow> (action \<times> reqUser \<times> date) list \<Rightarrow> db option" where
  "fullLifecycle e d cust rq newId t0 steps =
     (case createOrder e d cust rq newId t0 of
        (Inl err, d') \<Rightarrow> None
      | (Inr ord, d') \<Rightarrow> runSteps d' newId steps)"

text \<open>The status history of the order stored under an id, after a lifecycle.\<close>

definition historyAfter :: "db option \<Rightarrow> objectId \<Rightarrow> historyEntry list option" where
  "historyAfter r oid =
     (case r of
        None \<Rightarrow> None
      | Some d \<Rightarrow> (case findOrder d oid of None \<Rightarrow> None | Some ord \<Rightarrow> Some (statusHistory ord)))"

section \<open>Sample data\<close>

text \<open>
  A small database for the concrete runs below: restaurant 1 at (0, 0), owned by user 20;
  the customer 10, the drivers 30 and 31, the admin 40, and user 21, who has the
  restaurant role and owns no restaurant.
\<close>

definition samplePricing :: pricing where
  "samplePricing =
     \<lparr> subtotal = 20, deliveryFee = 3, serviceFee = 1.6, tax = 0, discount = 0,
       total = 24.6, platformCommission = 5.6, restaurantEarnings = 16, driverEarnings = 3 \<rparr>"

definition sampleOrder :: "objectId \<Rightarrow> status \<Rightarrow> objectId option \<Rightarrow> order" where
  "sampleOrder i st drv =
     \<lparr> o_id = i, customer = 10, restaurant = 1, driver = drv, items = [],
       pricing = samplePricing,
       payment = \<lparr>pay_method = ''cash'', p_status = PaymentPending, paidAt = None\<rparr>,
       status = st, statusHistory = [],
       acceptedAt = None, preparedAt = None, pickedUpAt = None, deliveredAt = None,
       isSurgeTime = False, surgeMultiplier = 1, cancellation = None, createdAt = i \<rparr>"

definition sampleRestaurant :: restaurantDoc where
  "sampleRestaurant =
     \<lparr> r_id = 1, owner = 20, location = (0, 0), minimumOrder = 10, r_deliveryFee = 3,
       isActive = True, isOpen = True, stats_totalOrders = 0, stats_totalRevenue = 0 \<rparr>"

definition sampleUsers :: "user list" where
  "sampleUsers =
     [\<lparr>u_id = 10, u_role = Customer, isAvailable = False, totalDeliveries = 0\<rparr>,
      \<lparr>u_id = 20, u_role = Restaurant, isAvailable = False, totalDeliveries = 0\<rparr>,
      \<lparr>u_id = 21, u_role = Restaurant, isAvailable = False, totalDeliveries = 0\<rparr>,
      \<lparr>u_id = 30, u_role = Driver, isAvailable = True, totalDeliveries = 0\<rparr>,
      \<lparr>u_id = 31, u_role = Driver, isAvailable = False, totalDeliveries = 7\<rparr>,
      \<lparr>u_id = 40, u_role = Admin, isAvailable = False, totalDeliveries = 0\<rparr>]"

definition sampleMenu :: "menuItem list" where
  "sampleMenu =
     [\<lparr>m_id = 50, m_name = ''soup'', m_price = 4, m_isAvailable = True,
       m_totalOrders = 0, m_popularity = 0\<rparr>]"

definition sampleDb :: "order list \<Rightarrow> db" where
  "sampleDb os =
     \<lparr> orders = os, restaurants = [sampleRestaurant], users = sampleUsers,
       menuItems = sampleMenu \<rparr>"

definition customerUser :: reqUser where
  "customerUser = \<lparr>req_id = 10, req_role = Customer\<rparr>"

definition ownerUser :: reqUser where
  "ownerUser = \<lparr>req_id = 20, req_role = Restaurant\<rparr>"

definition newOwnerUser :: reqUser where
  "newOwnerUser = \<lparr>req_id = 21, req_role = Restaurant\<rparr>"

definition driverUser :: reqUser where
  "driverUser = \<lparr>req_id = 30, req_role = Driver\<rparr>"

definition busyDriverUser :: reqUser where
  "busyDriverUser = \<lparr>req_id = 31, req_role = Driver\<rparr>"

definition adminUser :: reqUser where
  "adminUser = \<lparr>req_id = 40, req_role = Admin\<rparr>"



text \<open>An order line of two soups with the given subtotal.\<close>

definition sampleItem :: "real \<Rightarrow> orderItem" where
  "sampleItem s =
     \<lparr> oi_menuItem = 50, oi_name = ''soup'', oi_price = 4, oi_quantity = 2,
       oi_customizations = [], oi_specialInstructions = [], oi_subtotal = s \<rparr>"

text \<open>An environment that sets the three rates to 1/4, 2 and 1/2.\<close>

definition customEnv :: env where
  "customEnv =
     \<lparr>SERVICE_FEE_RATE = Some (1 / 4), SURGE_MULTIPLIER = Some 2, COMMISSION_RATE = Some (1 / 2)\<rparr>"

definition sampleEnv :: env where
  "sampleEnv = \<lparr>SERVICE_FEE_RATE = None, SURGE_MULTIPLIER = None, COMMISSION_RATE = None\<rparr>"

text \<open>A request for \<open>n\<close> soups at 4.00 each from restaurant 1, paid in cash.\<close>

definition soupRequest :: "real \<Rightarrow> orderRequest" where
  "soupRequest n =
     \<lparr> rq_restaurant = 1,
       rq_items = [\<lparr>ir_menuItem = 50, ir_quantity = n, ir_customizations = [],
                    ir_specialInstructions = ''''\<rparr>],
       rq_paymentMethod = ''cash'', rq_isSurgeTime = False \<rparr>"

text \<open>Twenty-one orders, all ready, without a driver, at restaurant 1.\<close>

definition twentyOneReady :: "order list" where
  "twentyOneReady =
     map (\<lambda>i. sampleOrder i Ready None)
       [101, 102, 103, 104, 105, 106, 107, 108, 109, 110,
        111, 112, 113, 114, 115, 116, 117, 118, 119, 120, 121]"








text \<open>The lifecycle of order 100, three soups, placed at time 10 and delivered at time 70.\<close>

definition sampleLifecycle :: "db option" where
  "sampleLifecycle =
     fullLifecycle sampleEnv (sampleDb []) customerUser (soupRequest 3) 100 10
       (lifecycleSteps ownerUser driverUser 20 30 40 50 60 70)"

section \<open>Properties of the pricing computation\<close>

lemma normalise_numeral:
  "normalise (numeral k) m e =
     (if m < 2 ^ 52 then normalise (pred_numeral k) (2 * m) (e - 1)
      else if 2 ^ 53 \<le> m then normalise (pred_numeral k) (m / 2) (e + 1)
      else (m, e))"
  by (simp add: numeral_eq_Suc)

lemmas fl_eval = fl_def normalise_numeral roundHalfEven_def pow2_def Let_def

lemma fl_zero [simp]: "fl 0 = 0"
  by (simp add: fl_def)

lemma fl_small_integers [simp]:
  "fl 3 = 3" "fl 6 = 6" "fl 8 = 8" "fl 10 = 10" "fl 12 = 12" "fl 16 = 16" "fl 20 = 20"
  by (simp_all add: fl_eval)

lemma fl_default_rates:
  "fl (2 / 25) = 5764607523034235 / 72057594037927936"
  "fl (1 / 5) = 3602879701896397 / 18014398509481984"
  by (simp_all add: fl_eval)

text \<open>
  The rounding on a few values: 0.1 and -7/3 round to their nearest doubles; above
  \<open>2^53\<close> the doubles are the even integers, and the odd integers in between are ties,
  which go to the neighbour with the even significand.
\<close>

lemma fl_rounding_samples:
  "fl (1 / 10) = 3602879701896397 / 36028797018963968"
  "fl (- (7 / 3)) = - (5254199565265579 / 2251799813685248)"
  "fl 9007199254740993 = 9007199254740992"
  "fl 9007199254740995 = 9007199254740996"
  "fl (9 / 2) = 9 / 2"
  by (simp_all add: fl_eval)

lemma foldl_subtotal_map:
  "foldl (\<lambda>sum item. fl (sum + oi_subtotal item)) a its
     = foldl (\<lambda>sum x. fl (sum + x)) a (map oi_subtotal its)"
  by (induction its arbitrary: a) simp_all

text \<open>
  C2, as stated, has the restaurant earnings equal subtotal times (1 - commission rate).
  The code subtracts the commission from the subtotal, and in doubles the two differ: for
  a subtotal of 12 at the default rate 0.20 the code gives 9.6 (the double
  5404319552844595 / 2^49), the product 12 times (1 - 0.2) computed in doubles is
  9.600000000000001 (the next double), and the exact product is neither.
\<close>

theorem C2_restaurantEarnings_counterexample:
  "restaurantEarnings (calculatePricing sampleEnv [sampleItem 12] 3 False)
     = 5404319552844595 / 562949953421312
   \<and> fl (subtotal (calculatePricing sampleEnv [sampleItem 12] 3 False)
           * fl (1 - commissionRate sampleEnv))
     = 5404319552844596 / 562949953421312
   \<and> restaurantEarnings (calculatePricing sampleEnv [sampleItem 12] 3 False)
     \<noteq> subtotal (calculatePricing sampleEnv [sampleItem 12] 3 False)
         * (1 - commissionRate sampleEnv)"
proof -
  have s: "subtotal (calculatePricing sampleEnv [sampleItem 12] 3 False) = 12"
    by (simp add: calculatePricing_def reduceSubtotal_def sampleItem_def Let_def)
  have c: "commissionRate sampleEnv = 3602879701896397 / 18014398509481984"
    by (simp add: commissionRate_def envOr_def sampleEnv_def fl_default_rates)
  have r: "restaurantEarnings (calculatePricing sampleEnv [sampleItem 12] 3 False)
             = 5404319552844595 / 562949953421312"
    by (simp add: calculatePricing_def reduceSubtotal_def sampleItem_def Let_def c fl_eval)
  have p: "fl (subtotal (calculatePricing sampleEnv [sampleItem 12] 3 False)
                 * fl (1 - commissionRate sampleEnv))
             = 5404319552844596 / 562949953421312"
    by (simp add: s c fl_eval)
  have n: "restaurantEarnings (calculatePricing sampleEnv [sampleItem 12] 3 False)
     \<noteq> subtotal (calculatePricing sampleEnv [sampleItem 12] 3 False)
         * (1 - commissionRate sampleEnv)"
    by (simp add: r s c)
  from r p n show ?thesis by (intro conjI)
qed

text \<open>
  C2, amended. For every list of items, base delivery fee and surge flag, with the
  service-fee rate, surge multiplier and commission rate the environment sets (the doubles
  0.08, 1.5 and 0.20 for a variable that is not set), and every operation rounded to the
  nearest double: the subtotal is the sum of the item subtotals, added from the left; the
  service fee is subtotal times service-fee rate; the delivery fee is the base fee times the
  surge multiplier under surge and times 1 otherwise; tax and discount are 0; the total is
  subtotal plus delivery fee, plus service fee; the platform commission is subtotal times
  commission rate, plus service fee; the restaurant earnings are subtotal minus subtotal
  times commission rate; the driver earnings are the delivery fee.
\<close>

theorem C2_calculatePricing:
  fixes e :: env and its :: "orderItem list" and fee :: real and isSurge :: bool
  defines "p \<equiv> calculatePricing e its fee isSurge"
    and "sfr \<equiv> (case SERVICE_FEE_RATE e of None \<Rightarrow> fl 0.08 | Some r \<Rightarrow> r)"
    and "mult \<equiv> (if isSurge then (case SURGE_MULTIPLIER e of None \<Rightarrow> 1.5 | Some m \<Rightarrow> m) else 1)"
    and "cr \<equiv> (case COMMISSION_RATE e of None \<Rightarrow> fl 0.20 | Some r \<Rightarrow> r)"
  shows "subtotal p = foldl (\<lambda>sum x. fl (sum + x)) 0 (map oi_subtotal its)
       \<and> serviceFee p = fl (subtotal p * sfr)
       \<and> deliveryFee p = fl (fee * mult)
       \<and> tax p = 0 \<and> discount p = 0
       \<and> total p = fl (fl (subtotal p + deliveryFee p) + serviceFee p)
       \<and> platformCommission p = fl (fl (subtotal p * cr) + serviceFee p)
       \<and> restaurantEarnings p = fl (subtotal p - fl (subtotal p * cr))
       \<and> driverEarnings p = deliveryFee p"
  unfolding p_def sfr_def mult_def cr_def
  by (simp add: calculatePricing_def Let_def reduceSubtotal_def foldl_subtotal_map
        serviceFeeRate_def surgeMultiplierOf_def commissionRate_def envOr_def
      split: option.splits)

theorem C2_calculatePricing_witness:
  "subtotal (calculatePricing sampleEnv [sampleItem 12, sampleItem 8] 3 True) = 20
   \<and> deliveryFee (calculatePricing sampleEnv [sampleItem 12, sampleItem 8] 3 True) = 4.5
   \<and> serviceFee (calculatePricing sampleEnv [sampleItem 12, sampleItem 8] 3 True)
       = 3602879701896397 / 2251799813685248
   \<and> total (calculatePricing sampleEnv [sampleItem 12, sampleItem 8] 3 True)
       = 3673248446074061 / 140737488355328
   \<and> platformCommission (calculatePricing sampleEnv [sampleItem 12, sampleItem 8] 3 True)
       = 3152519739159347 / 562949953421312
   \<and> restaurantEarnings (calculatePricing sampleEnv [sampleItem 12, sampleItem 8] 3 True) = 16
   \<and> driverEarnings (calculatePricing sampleEnv [sampleItem 12, sampleItem 8] 3 True) = 4.5
   \<and> deliveryFee (calculatePricing sampleEnv [sampleItem 12, sampleItem 8] 3 False) = 3
   \<and> serviceFee (calculatePricing customEnv [sampleItem 12, sampleItem 8] 3 True) = 5
   \<and> deliveryFee (calculatePricing customEnv [sampleItem 12, sampleItem 8] 3 True) = 6
   \<and> total (calculatePricing customEnv [sampleItem 12, sampleItem 8] 3 True) = 31
   \<and> platformCommission (calculatePricing customEnv [sampleItem 12, sampleItem 8] 3 True) = 15
   \<and> restaurantEarnings (calculatePricing customEnv [sampleItem 12, sampleItem 8] 3 True) = 10"
proof -
  note T = C2_calculatePricing [where its = "[sampleItem 12, sampleItem 8]" and fee = 3]
  from T [where e = sampleEnv and isSurge = True]
    T [where e = sampleEnv and isSurge = False]
    T [where e = customEnv and isSurge = True]
  show ?thesis
    by (simp add: sampleItem_def sampleEnv_def customEnv_def fl_eval
          del: eq_divide_eq_numeral1 divide_eq_eq_numeral1)
qed

section \<open>Facts about the collections and the save hook\<close>

lemmas sample_defs = sampleDb_def sampleOrder_def sampleRestaurant_def sampleUsers_def
  sampleMenu_def samplePricing_def customerUser_def ownerUser_def newOwnerUser_def
  driverUser_def busyDriverUser_def adminUser_def sampleEnv_def soupRequest_def

lemma find_map_replace_order:
  "o_id y = i \<Longrightarrow>
   find (\<lambda>x. o_id x = i) (map (\<lambda>x. if o_id x = i then y else x) xs)
     = map_option (\<lambda>_. y) (find (\<lambda>x. o_id x = i) xs)"
  by (induction xs) auto

lemma o_id_pre_save [simp]: "o_id (pre_save_statusHistory m now doc) = o_id doc"
  by (simp add: pre_save_statusHistory_def)

lemma status_pre_save [simp]: "status (pre_save_statusHistory m now doc) = status doc"
  by (simp add: pre_save_statusHistory_def)

lemma driver_pre_save [simp]: "driver (pre_save_statusHistory m now doc) = driver doc"
  by (simp add: pre_save_statusHistory_def)

lemma save_eq:
  "save now l doc d =
     (pre_save_statusHistory (isModified_status l doc) now doc,
      d\<lparr>orders := map (\<lambda>x. if o_id x = o_id doc
                            then pre_save_statusHistory (isModified_status l doc) now doc else x)
                      (orders d)\<rparr>)"
  by (simp add: save_def Let_def)

lemma findOrder_after_save:
  "findOrder (snd (save now l doc d)) (o_id doc)
     = map_option (\<lambda>_. fst (save now l doc d)) (findOrder d (o_id doc))"
  by (simp add: save_eq findOrder_def find_map_replace_order)

lemma findOrder_Some_id: "findOrder d i = Some x \<Longrightarrow> o_id x = i"
  by (auto simp: findOrder_def find_Some_iff)



lemma findOrder_updateUser [simp]: "findOrder (updateUser i f d) j = findOrder d j"
  by (simp add: findOrder_def updateUser_def)

lemma users_save [simp]: "users (snd (save now l doc d)) = users d"
  by (simp add: save_eq)

lemma findUser_save [simp]: "findUser (snd (save now l doc d)) i = findUser d i"
  by (simp add: findUser_def)

section \<open>Assigning a driver\<close>

lemmas handler_eval = findOrder_def findRestaurant_def findUser_def findMenuItem_def
  updateUser_def updateRestaurant_def updateMenuItem_def arrayIncludes_def
  isModified_status_def pre_save_statusHistory_def save_def stampTimestamps_def Let_def







section \<open>Status updates are not checked against the state machine\<close>

text \<open>
  C1. The specification has a status update fail whenever the requested status is not
  the next one in the lifecycle. \<^verbatim>\<open>updateOrderStatus\<close> compares the requested status with
  nothing but the caller: run on the sample data, the restaurant's owner moves a
  delivered order back to confirmed and a pending order straight to ready, and the
  assigned driver marks an order delivered that was never picked up, through
  \<^verbatim>\<open>updateOrderStatus\<close> and through \<^verbatim>\<open>completeDelivery\<close> alike. A pending order
  has no driver, so marking it delivered is refused, as not authorized.
\<close>

theorem C1_updateOrderStatus_unchecked:
  "fst (updateOrderStatus (sampleDb [sampleOrder 100 Delivered (Some 30)]) ownerUser 100 Confirmed 9)
     = Inr ((sampleOrder 100 Delivered (Some 30))
              \<lparr>status := Confirmed, acceptedAt := Some 9,
               statusHistory := [\<lparr>h_status = Confirmed, h_timestamp = 9\<rparr>]\<rparr>)
   \<and> fst (updateOrderStatus (sampleDb [sampleOrder 100 Pending None]) ownerUser 100 Ready 9)
     = Inr ((sampleOrder 100 Pending None)
              \<lparr>status := Ready, preparedAt := Some 9,
               statusHistory := [\<lparr>h_status = Ready, h_timestamp = 9\<rparr>]\<rparr>)
   \<and> fst (updateOrderStatus (sampleDb [sampleOrder 100 Pending None]) driverUser 100 Delivered 9)
     = Inl NotAuthorized
   \<and> fst (updateOrderStatus (sampleDb [sampleOrder 100 Assigned (Some 30)]) driverUser 100 Delivered 9)
     = Inr ((sampleOrder 100 Assigned (Some 30))
              \<lparr>status := Delivered, deliveredAt := Some 9,
               payment := \<lparr>pay_method = ''cash'', p_status = PaymentCompleted, paidAt = Some 9\<rparr>,
               statusHistory := [\<lparr>h_status = Delivered, h_timestamp = 9\<rparr>]\<rparr>)
   \<and> fst (completeDelivery (sampleDb [sampleOrder 100 Assigned (Some 30)]) driverUser 100 9)
     = Inr ((sampleOrder 100 Assigned (Some 30))
              \<lparr>status := Delivered, deliveredAt := Some 9,
               payment := \<lparr>pay_method = ''cash'', p_status = PaymentCompleted, paidAt = Some 9\<rparr>,
               statusHistory := [\<lparr>h_status = Delivered, h_timestamp = 9\<rparr>]\<rparr>)"
  by (simp add: updateOrderStatus_def completeDelivery_def handler_eval sample_defs)

section \<open>Delivery through the status update leaves the statistics alone\<close>

text \<open>
  C5. The specification has every path that sets the status to delivered also credit the
  restaurant's revenue, count the delivery for the driver and make the driver available
  again. \<^verbatim>\<open>completeDelivery\<close> does; \<^verbatim>\<open>updateOrderStatus\<close> with the status delivered
  stamps the order and the payment and writes nothing else: on the sample data the
  restaurants and the users are what they were, while \<^verbatim>\<open>completeDelivery\<close> on the same
  input adds 16 to the revenue, makes the driver's count 8 and the driver available.
\<close>

theorem C5_updateOrderStatus_delivered_no_stats:
  "fst (updateOrderStatus (sampleDb [sampleOrder 100 PickedUp (Some 31)]) busyDriverUser 100 Delivered 9)
     = Inr ((sampleOrder 100 PickedUp (Some 31))
              \<lparr>status := Delivered, deliveredAt := Some 9,
               payment := \<lparr>pay_method = ''cash'', p_status = PaymentCompleted, paidAt = Some 9\<rparr>,
               statusHistory := [\<lparr>h_status = Delivered, h_timestamp = 9\<rparr>]\<rparr>)
   \<and> restaurants (snd (updateOrderStatus (sampleDb [sampleOrder 100 PickedUp (Some 31)])
                         busyDriverUser 100 Delivered 9)) = [sampleRestaurant]
   \<and> users (snd (updateOrderStatus (sampleDb [sampleOrder 100 PickedUp (Some 31)])
                         busyDriverUser 100 Delivered 9)) = sampleUsers
   \<and> findUser (snd (updateOrderStatus (sampleDb [sampleOrder 100 PickedUp (Some 31)])
                         busyDriverUser 100 Delivered 9)) 31
       = Some \<lparr>u_id = 31, u_role = Driver, isAvailable = False, totalDeliveries = 7\<rparr>
   \<and> restaurants (snd (completeDelivery (sampleDb [sampleOrder 100 PickedUp (Some 31)])
                         busyDriverUser 100 9))
       = [sampleRestaurant\<lparr>stats_totalOrders := 1, stats_totalRevenue := 16\<rparr>]
   \<and> findUser (snd (completeDelivery (sampleDb [sampleOrder 100 PickedUp (Some 31)])
                         busyDriverUser 100 9)) 31
       = Some \<lparr>u_id = 31, u_role = Driver, isAvailable = True, totalDeliveries = 8\<rparr>"
  by (simp add: updateOrderStatus_def completeDelivery_def handler_eval sample_defs)

section \<open>Cancellation\<close>

text \<open>
  C6, as stated, has cancellation never succeed from rejected. The guard of
  \<^verbatim>\<open>cancelOrder\<close> lists delivered and cancelled only: the customer cancels a rejected
  order.
\<close>

theorem C6_cancel_rejected_counterexample:
  "fst (cancelOrder (sampleDb [sampleOrder 100 Rejected None]) customerUser 100 ''changed mind'' 9)
     = Inr ((sampleOrder 100 Rejected None)
              \<lparr>status := Cancelled,
               cancellation := Some \<lparr>reason = ''changed mind'', cancelledBy = Customer,
                                     cancelledAt = 9\<rparr>,
               statusHistory := [\<lparr>h_status = Cancelled, h_timestamp = 9\<rparr>]\<rparr>)"
  by (simp add: cancelOrder_def handler_eval sample_defs)

text \<open>
  C6, amended. \<^verbatim>\<open>cancelOrder\<close> succeeds exactly when the order exists, its status is
  neither delivered nor cancelled (so also from rejected), its restaurant exists, and the
  caller is the order's customer, the owner of its restaurant, or an admin. A delivered or
  cancelled order answers "Order cannot be cancelled", another caller "Not authorized to
  cancel this order". On success the stored order has the status cancelled and the
  cancellation record of the given reason and time, cancelled by the customer when the
  caller is the order's customer, else by the restaurant when the caller owns it, else by the
  admin. A failed request leaves the database as it was.
\<close>

theorem C6_cancelOrder:
  fixes d :: db and u :: reqUser and oid :: objectId and why :: string and now :: date
  defines "r \<equiv> cancelOrder d u oid why now"
  shows "((\<exists>ord'. fst r = Inr ord')
            \<longleftrightarrow> (\<exists>ord rest. findOrder d oid = Some ord
                   \<and> status ord \<noteq> Delivered \<and> status ord \<noteq> Cancelled
                   \<and> findRestaurant d (restaurant ord) = Some rest
                   \<and> (customer ord = req_id u \<or> owner rest = req_id u \<or> req_role u = Admin)))
       \<and> (\<forall>ord. findOrder d oid = Some ord \<and> (status ord = Delivered \<or> status ord = Cancelled)
              \<longrightarrow> r = (Inl OrderCannotBeCancelled, d))
       \<and> (\<forall>ord rest. findOrder d oid = Some ord
                \<and> status ord \<noteq> Delivered \<and> status ord \<noteq> Cancelled
                \<and> findRestaurant d (restaurant ord) = Some rest
                \<and> customer ord \<noteq> req_id u \<and> owner rest \<noteq> req_id u \<and> req_role u \<noteq> Admin
              \<longrightarrow> r = (Inl NotAuthorizedToCancel, d))
       \<and> (\<forall>ord rest ord'. findOrder d oid = Some ord
                \<and> findRestaurant d (restaurant ord) = Some rest \<and> fst r = Inr ord'
              \<longrightarrow> status ord' = Cancelled
                \<and> cancellation ord'
                    = Some \<lparr>reason = why,
                            cancelledBy = (if customer ord = req_id u then Customer
                                           else if owner rest = req_id u then Restaurant
                                           else Admin),
                            cancelledAt = now\<rparr>
                \<and> findOrder (snd r) oid = Some ord')
       \<and> (\<forall>err. fst r = Inl err \<longrightarrow> snd r = d)"
proof (cases "findOrder d oid")
  case None
  then show ?thesis by (simp add: r_def cancelOrder_def)
next
  case (Some ord)
  then have oid: "o_id ord = oid" by (rule findOrder_Some_id)
  show ?thesis
  proof (cases "findRestaurant d (restaurant ord)")
    case None
    with Some show ?thesis by (simp add: r_def cancelOrder_def arrayIncludes_def)
  next
    case rest: (Some rest)
    let ?doc = "ord\<lparr>status := Cancelled,
                    cancellation := Some \<lparr>reason = why,
                       cancelledBy = (if customer ord = req_id u then Customer
                                      else if owner rest = req_id u then Restaurant else Admin),
                       cancelledAt = now\<rparr>\<rparr>"
    show ?thesis
    proof (cases "status ord \<noteq> Delivered \<and> status ord \<noteq> Cancelled
                  \<and> (customer ord = req_id u \<or> owner rest = req_id u \<or> req_role u = Admin)")
      case False
      with Some rest show ?thesis
        by (auto simp: r_def cancelOrder_def arrayIncludes_def Let_def)
    next
      case True
      have r: "r = (Inr (fst (save now ord ?doc d)), snd (save now ord ?doc d))"
        using Some rest True
        by (auto simp: r_def cancelOrder_def arrayIncludes_def Let_def split: prod.splits)
      have f: "findOrder (snd (save now ord ?doc d)) oid = Some (fst (save now ord ?doc d))"
        using findOrder_after_save [of now ord ?doc d] Some oid by simp
      have c: "status (fst (save now ord ?doc d)) = Cancelled"
              "cancellation (fst (save now ord ?doc d)) = cancellation ?doc"
        by (simp_all add: save_eq pre_save_statusHistory_def)
      show ?thesis using Some rest True by (simp add: r f c)
    qed
  qed
qed

theorem C6_cancelOrder_witness:
  "(\<exists>ord'. fst (cancelOrder (sampleDb [sampleOrder 100 Pending None]) customerUser 100
                   ''changed mind'' 9) = Inr ord'
        \<and> status ord' = Cancelled
        \<and> cancellation ord'
            = Some \<lparr>reason = ''changed mind'', cancelledBy = Customer, cancelledAt = 9\<rparr>)
   \<and> cancelOrder (sampleDb [sampleOrder 100 Delivered (Some 30)]) customerUser 100 ''changed mind'' 9
       = (Inl OrderCannotBeCancelled, sampleDb [sampleOrder 100 Delivered (Some 30)])
   \<and> cancelOrder (sampleDb [sampleOrder 100 Cancelled None]) customerUser 100 ''changed mind'' 9
       = (Inl OrderCannotBeCancelled, sampleDb [sampleOrder 100 Cancelled None])
   \<and> cancelOrder (sampleDb [sampleOrder 100 Pending None]) driverUser 100 ''changed mind'' 9
       = (Inl NotAuthorizedToCancel, sampleDb [sampleOrder 100 Pending None])"
proof -
  have fo: "findOrder (sampleDb [sampleOrder 100 st drv]) 100 = Some (sampleOrder 100 st drv)"
    for st drv by (simp add: findOrder_def sampleDb_def sampleOrder_def)
  have fr: "findRestaurant (sampleDb os) (restaurant (sampleOrder 100 st drv)) = Some sampleRestaurant"
    for os st drv by (simp add: findRestaurant_def sampleDb_def sampleOrder_def sampleRestaurant_def)
  have fs: "status (sampleOrder 100 st drv) = st" "customer (sampleOrder 100 st drv) = 10"
    for st drv by (simp_all add: sampleOrder_def)
  have us: "req_id customerUser = 10" "req_id driverUser = 30" "req_role driverUser = Driver"
    "owner sampleRestaurant = 20"
    by (simp_all add: customerUser_def driverUser_def sampleRestaurant_def)
  note A = C6_cancelOrder [where d = "sampleDb [sampleOrder 100 Pending None]" and u = customerUser
                      and oid = 100 and why = "''changed mind''" and now = 9]
  note B = C6_cancelOrder [where d = "sampleDb [sampleOrder 100 Delivered (Some 30)]"
                      and u = customerUser and oid = 100 and why = "''changed mind''" and now = 9]
  note C = C6_cancelOrder [where d = "sampleDb [sampleOrder 100 Cancelled None]" and u = customerUser
                      and oid = 100 and why = "''changed mind''" and now = 9]
  note D = C6_cancelOrder [where d = "sampleDb [sampleOrder 100 Pending None]" and u = driverUser
                      and oid = 100 and why = "''changed mind''" and now = 9]
  from A [THEN conjunct1] obtain ord' where
    o': "fst (cancelOrder (sampleDb [sampleOrder 100 Pending None]) customerUser 100
                ''changed mind'' 9) = Inr ord'"
    using fo [of Pending None] fr [of _ Pending None] fs [of Pending None] us by auto
  from A [THEN conjunct2, THEN conjunct2, THEN conjunct2, THEN conjunct1, rule_format,
          of "sampleOrder 100 Pending None" sampleRestaurant ord']
  have "status ord' = Cancelled
        \<and> cancellation ord'
            = Some \<lparr>reason = ''changed mind'', cancelledBy = Customer, cancelledAt = 9\<rparr>"
    using o' fo [of Pending None] fr [of _ Pending None] fs [of Pending None] us by simp
  moreover
  from B [THEN conjunct2, THEN conjunct1, rule_format, of "sampleOrder 100 Delivered (Some 30)"]
  have "cancelOrder (sampleDb [sampleOrder 100 Delivered (Some 30)]) customerUser 100 ''changed mind'' 9
       = (Inl OrderCannotBeCancelled, sampleDb [sampleOrder 100 Delivered (Some 30)])"
    using fo [of Delivered "Some 30"] fs [of Delivered "Some 30"] by simp
  moreover
  from C [THEN conjunct2, THEN conjunct1, rule_format, of "sampleOrder 100 Cancelled None"]
  have "cancelOrder (sampleDb [sampleOrder 100 Cancelled None]) customerUser 100 ''changed mind'' 9
       = (Inl OrderCannotBeCancelled, sampleDb [sampleOrder 100 Cancelled None])"
    using fo [of Cancelled None] fs [of Cancelled None] by simp
  moreover
  from D [THEN conjunct2, THEN conjunct2, THEN conjunct1, rule_format,
          of "sampleOrder 100 Pending None" sampleRestaurant]
  have "cancelOrder (sampleDb [sampleOrder 100 Pending None]) driverUser 100 ''changed mind'' 9
       = (Inl NotAuthorizedToCancel, sampleDb [sampleOrder 100 Pending None])"
    using fo [of Pending None] fr [of _ Pending None] fs [of Pending None] us by simp
  ultimately show ?thesis using o' by blast
qed

section \<open>The minimum order amount\<close>

lemma httpStatus_400 [simp]:
  "httpStatus RestaurantNotAvailable = 400" "httpStatus (InvalidPaymentMethod m) = 400"
  "httpStatus (MinimumOrderAmount x) = 400"
  by simp_all

text \<open>
  C8. When the restaurant is found, every requested item is available and the subtotal
  of the computed pricing is below the restaurant's minimum order amount,
  \<^verbatim>\<open>createOrder\<close> answers with an error of status 400 and leaves the database as it
  was; when the restaurant is also active and open and the payment method valid, the error
  is the one of the minimum order amount.
\<close>

theorem C8_createOrder_minimum:
  assumes "findRestaurant d (rq_restaurant rq) = Some rest"
    and "buildOrderItems d (rq_items rq) = Inr ois"
    and "subtotal (calculatePricing e ois (r_deliveryFee rest) (rq_isSurgeTime rq)) < minimumOrder rest"
  shows "\<exists>err. createOrder e d u rq newId now = (Inl err, d) \<and> httpStatus err = 400
           \<and> (isActive rest \<and> isOpen rest
                \<and> arrayIncludes [''card'', ''cash'', ''wallet''] (rq_paymentMethod rq)
               \<longrightarrow> err = MinimumOrderAmount (minimumOrder rest))"
  using assms by (auto simp: createOrder_def Let_def)

theorem C8_createOrder_minimum_witness:
  "buildOrderItems (sampleDb []) (rq_items (soupRequest 2))
     = Inr [\<lparr>oi_menuItem = 50, oi_name = ''soup'', oi_price = 4, oi_quantity = 2,
         oi_customizations = [], oi_specialInstructions = '''', oi_subtotal = 8\<rparr>]
   \<and> subtotal (calculatePricing sampleEnv
       [\<lparr>oi_menuItem = 50, oi_name = ''soup'', oi_price = 4, oi_quantity = 2,
         oi_customizations = [], oi_specialInstructions = '''', oi_subtotal = 8\<rparr>] 3 False) = 8
   \<and> minimumOrder sampleRestaurant = 10
   \<and> createOrder sampleEnv (sampleDb []) customerUser (soupRequest 2) 100 5
       = (Inl (MinimumOrderAmount 10), sampleDb [])"
proof -
  let ?ois = "[\<lparr>oi_menuItem = 50, oi_name = ''soup'', oi_price = 4, oi_quantity = 2,
         oi_customizations = [], oi_specialInstructions = '''', oi_subtotal = 8\<rparr>]"
  have fr: "findRestaurant (sampleDb []) (rq_restaurant (soupRequest 2)) = Some sampleRestaurant"
    by (simp add: findRestaurant_def sampleDb_def soupRequest_def sampleRestaurant_def)
  have bo: "buildOrderItems (sampleDb []) (rq_items (soupRequest 2)) = Inr ?ois"
    by (simp add: findMenuItem_def itemPrice_def sampleDb_def soupRequest_def sampleMenu_def)
  have su: "subtotal (calculatePricing sampleEnv ?ois 3 False) = 8"
    by (simp add: calculatePricing_def reduceSubtotal_def Let_def)
  have re: "minimumOrder sampleRestaurant = 10" "r_deliveryFee sampleRestaurant = 3"
    "isActive sampleRestaurant" "isOpen sampleRestaurant"
    "rq_isSurgeTime (soupRequest 2) = False" "rq_paymentMethod (soupRequest 2) = ''cash''"
    by (simp_all add: sampleRestaurant_def soupRequest_def)
  have lt: "subtotal (calculatePricing sampleEnv ?ois (r_deliveryFee sampleRestaurant)
              (rq_isSurgeTime (soupRequest 2))) < minimumOrder sampleRestaurant"
    by (simp add: re su)
  from C8_createOrder_minimum [OF fr bo lt, of customerUser 100 5]
  have "createOrder sampleEnv (sampleDb []) customerUser (soupRequest 2) 100 5
       = (Inl (MinimumOrderAmount 10), sampleDb [])"
    by (auto simp: re arrayIncludes_def)
  with bo su re show ?thesis by simp
qed

section \<open>Listing orders\<close>

text \<open>
  C9. The specification has a caller with the restaurant role see only the orders of
  their own restaurant. \<^verbatim>\<open>getOrders\<close> sets the restaurant condition only when the caller owns
  a restaurant and otherwise leaves the query empty: user 21 of the sample data has the
  restaurant role, owns no restaurant, and is handed the order that customer 10 placed at
  restaurant 1.
\<close>

theorem C9_getOrders_unscoped:
  "find (\<lambda>r. owner r = req_id newOwnerUser) (restaurants (sampleDb [sampleOrder 100 Pending None])) = None
   \<and> getOrders (sampleDb [sampleOrder 100 Pending None]) newOwnerUser None None None
     = Inr \<lparr>l_count = 1, l_total = 1, l_page = 1, l_data = [sampleOrder 100 Pending None]\<rparr>"
  by (simp add: getOrders_def roleQuery_def matches_def sortSkipLimit_def Let_def sample_defs)

section \<open>The candidate orders of a driver\<close>

lemma withDistance_Some:
  "withDistance d la lo xs = Some ods \<Longrightarrow>
     ods = map (\<lambda>x. (x, kmOf d la lo x)) xs
     \<and> (\<forall>x \<in> set xs. distanceTo d la lo x = Some (kmOf d la lo x))"
  by (induction xs arbitrary: ods) (auto simp: kmOf_def split: option.splits)

lemma withDistance_total:
  "\<forall>x \<in> set xs. findRestaurant d (restaurant x) \<noteq> None \<Longrightarrow> withDistance d la lo xs \<noteq> None"
  by (induction xs) (auto simp: distanceTo_def split: option.splits)

lemma getAvailableOrders_Inr:
  "getAvailableOrders d u lat lng = Inr res \<Longrightarrow>
     \<exists>la lo ods. lat = Some la \<and> lng = Some lo
       \<and> withDistance d la lo (findReadyOrders d) = Some ods
       \<and> res = sort_key snd (filter (\<lambda>od. snd od \<le> 10) ods)"
  by (auto simp: getAvailableOrders_def split: option.splits if_splits)

lemma getAvailableOrders_shape:
  assumes "getAvailableOrders d u lat lng = Inr res"
  shows "\<exists>la lo. lat = Some la \<and> lng = Some lo
           \<and> (\<forall>x \<in> set (findReadyOrders d). distanceTo d la lo x = Some (kmOf d la lo x))
           \<and> res = sort_key snd (filter (\<lambda>od. snd od \<le> 10)
                                   (map (\<lambda>x. (x, kmOf d la lo x)) (findReadyOrders d)))"
proof -
  from getAvailableOrders_Inr [OF assms] obtain la lo ods where
    l: "lat = Some la" "lng = Some lo"
    and w: "withDistance d la lo (findReadyOrders d) = Some ods"
    and r: "res = sort_key snd (filter (\<lambda>od. snd od \<le> 10) ods)"
    by blast
  from withDistance_Some [OF w] l r show ?thesis by blast
qed

lemma getAvailableOrders_succeeds:
  assumes "findUser d (req_id u) = Some drv" and "isAvailable drv"
    and "\<forall>x \<in> set (findReadyOrders d). findRestaurant d (restaurant x) \<noteq> None"
  shows "\<exists>res. getAvailableOrders d u (Some la) (Some lo) = Inr res"
  using assms withDistance_total [of "findReadyOrders d" d la lo]
  by (auto simp: getAvailableOrders_def split: option.splits)

lemma getAvailableOrders_bound:
  assumes "getAvailableOrders d u lat lng = Inr res"
  shows "length res \<le> 20 \<and> fst ` set res \<subseteq> set (take 20 (filter readyUnassigned (orders d)))"
proof -
  from getAvailableOrders_shape [OF assms] obtain la lo where
    r: "res = sort_key snd (filter (\<lambda>od. snd od \<le> 10)
                                   (map (\<lambda>x. (x, kmOf d la lo x)) (findReadyOrders d)))"
    by blast
  have "length res \<le> length (findReadyOrders d)"
    unfolding r by (simp add: le_trans [OF length_filter_le])
  moreover have "length (findReadyOrders d) \<le> 20" by (simp add: findReadyOrders_def)
  moreover have "fst ` set res \<subseteq> set (findReadyOrders d)" unfolding r by auto
  ultimately show ?thesis by (simp add: findReadyOrders_def)
qed

lemma beyond_twenty_absent:
  assumes "distinct (map o_id (orders d))"
    and "getAvailableOrders d u lat lng = Inr res"
    and "x \<in> set (drop 20 (filter readyUnassigned (orders d)))"
  shows "x \<notin> fst ` set res"
proof -
  have "distinct (orders d)" using assms(1) by (simp add: distinct_map)
  then have "distinct (filter readyUnassigned (orders d))" by simp
  then have "distinct (take 20 (filter readyUnassigned (orders d))
                       @ drop 20 (filter readyUnassigned (orders d)))" by simp
  then have "set (take 20 (filter readyUnassigned (orders d)))
             \<inter> set (drop 20 (filter readyUnassigned (orders d))) = {}"
    by (simp only: distinct_append)
  with assms(3) have "x \<notin> set (take 20 (filter readyUnassigned (orders d)))" by blast
  with getAvailableOrders_bound [OF assms(2)] show ?thesis by blast
qed

lemma calculateDistance_same [simp]: "calculateDistance la lo la lo = 0"
  by (simp add: calculateDistance_def atan2_def Let_def)


lemma sampleOrder_sel [simp]:
  "o_id (sampleOrder i st drv) = i" "status (sampleOrder i st drv) = st"
  "driver (sampleOrder i st drv) = drv" "restaurant (sampleOrder i st drv) = 1"
  "customer (sampleOrder i st drv) = 10" "statusHistory (sampleOrder i st drv) = []"
  by (simp_all add: sampleOrder_def)

lemma sampleDb_sel [simp]:
  "orders (sampleDb os) = os" "restaurants (sampleDb os) = [sampleRestaurant]"
  "users (sampleDb os) = sampleUsers"
  by (simp_all add: sampleDb_def)

lemma findRestaurant_sample [simp]:
  "findRestaurant (sampleDb os) 1 = Some sampleRestaurant"
  "findRestaurant (sampleDb os) (Suc 0) = Some sampleRestaurant"
  by (simp_all add: findRestaurant_def sampleRestaurant_def)

lemma findUser_driver [simp]:
  "findUser (sampleDb os) (req_id driverUser)
     = Some \<lparr>u_id = 30, u_role = Driver, isAvailable = True, totalDeliveries = 0\<rparr>"
  by (simp add: findUser_def sampleUsers_def driverUser_def)

lemma distanceTo_sample [simp]: "distanceTo (sampleDb os) 0 0 (sampleOrder i st drv) = Some 0"
  by (simp add: distanceTo_def) (simp add: sampleRestaurant_def)

lemma twentyOneReady_facts:
  "filter readyUnassigned twentyOneReady = twentyOneReady"
  "length twentyOneReady = 21"
  "distinct (map o_id twentyOneReady)"
  "drop 20 twentyOneReady = [sampleOrder 121 Ready None]"
  "sampleOrder 121 Ready None \<in> set twentyOneReady"
  by (simp_all add: twentyOneReady_def readyUnassigned_def)

lemma twentyOneReady_restaurant:
  "x \<in> set twentyOneReady \<Longrightarrow> \<exists>i. x = sampleOrder i Ready None"
  by (auto simp: twentyOneReady_def)

lemma twentyOneReady_succeeds:
  "\<exists>res. getAvailableOrders (sampleDb twentyOneReady) driverUser (Some 0) (Some 0) = Inr res"
proof (rule getAvailableOrders_succeeds)
  show "findUser (sampleDb twentyOneReady) (req_id driverUser)
          = Some \<lparr>u_id = 30, u_role = Driver, isAvailable = True, totalDeliveries = 0\<rparr>"
    by simp
  show "isAvailable \<lparr>u_id = 30, u_role = Driver, isAvailable = True, totalDeliveries = 0\<rparr>"
    by simp
  show "\<forall>x\<in>set (findReadyOrders (sampleDb twentyOneReady)).
          findRestaurant (sampleDb twentyOneReady) (restaurant x) \<noteq> None"
  proof
    fix x assume "x \<in> set (findReadyOrders (sampleDb twentyOneReady))"
    then have "x \<in> set twentyOneReady"
      by (auto simp: findReadyOrders_def twentyOneReady_facts dest: in_set_takeD)
    then obtain i where "x = sampleOrder i Ready None" using twentyOneReady_restaurant by blast
    then show "findRestaurant (sampleDb twentyOneReady) (restaurant x) \<noteq> None" by simp
  qed
qed

text \<open>
  C10. \<^verbatim>\<open>getAvailableOrders\<close> looks at the first 20 ready orders without a driver
  only: a successful query returns at most 20 candidates, all among those first 20, and
  when the orders have distinct ids no ready order without a driver beyond the 20th is
  returned, whatever its distance. There is a database with more than 20 ready
  orders without a driver in which an order at distance 0 from the driver is not among
  the candidates.
\<close>

theorem C10_candidates_first_twenty:
  "(\<forall>res. getAvailableOrders d u lat lng = Inr res \<longrightarrow>
       length res \<le> 20
     \<and> fst ` set res \<subseteq> set (take 20 (filter readyUnassigned (orders d)))
     \<and> (distinct (map o_id (orders d)) \<longrightarrow>
          (\<forall>x \<in> set (drop 20 (filter readyUnassigned (orders d))). x \<notin> fst ` set res)))
   \<and> (\<exists>d' u' la lo x res.
         20 < length (filter readyUnassigned (orders d'))
       \<and> getAvailableOrders d' u' (Some la) (Some lo) = Inr res
       \<and> x \<in> set (orders d') \<and> readyUnassigned x
       \<and> distanceTo d' la lo x = Some 0 \<and> x \<notin> fst ` set res)"
proof (intro conjI allI impI ballI)
  fix res assume r: "getAvailableOrders d u lat lng = Inr res"
  from getAvailableOrders_bound [OF r]
  show "length res \<le> 20" "fst ` set res \<subseteq> set (take 20 (filter readyUnassigned (orders d)))"
    by simp_all
  fix x assume "distinct (map o_id (orders d))"
    and "x \<in> set (drop 20 (filter readyUnassigned (orders d)))"
  then show "x \<notin> fst ` set res" using beyond_twenty_absent [OF _ r] by blast
next
  let ?D = "sampleDb twentyOneReady" and ?x = "sampleOrder 121 Ready None"
  from twentyOneReady_succeeds obtain res where
    r: "getAvailableOrders ?D driverUser (Some 0) (Some 0) = Inr res" by blast
  have "?x \<notin> fst ` set res"
    by (rule beyond_twenty_absent [OF _ r]) (simp_all add: twentyOneReady_facts)
  moreover have "20 < length (filter readyUnassigned (orders ?D))"
    by (simp add: twentyOneReady_facts)
  moreover have "?x \<in> set (orders ?D)" "readyUnassigned ?x" "distanceTo ?D 0 0 ?x = Some 0"
    by (simp_all add: twentyOneReady_facts readyUnassigned_def)
  ultimately show "\<exists>d' u' la lo x res.
         20 < length (filter readyUnassigned (orders d'))
       \<and> getAvailableOrders d' u' (Some la) (Some lo) = Inr res
       \<and> x \<in> set (orders d') \<and> readyUnassigned x
       \<and> distanceTo d' la lo x = Some 0 \<and> x \<notin> fst ` set res"
    using r by blast
qed

theorem C10_candidates_first_twenty_witness:
  "distinct (map o_id (orders (sampleDb twentyOneReady)))
   \<and> length (filter readyUnassigned (orders (sampleDb twentyOneReady))) = 21
   \<and> sampleOrder 121 Ready None
       \<in> set (drop 20 (filter readyUnassigned (orders (sampleDb twentyOneReady))))
   \<and> distanceTo (sampleDb twentyOneReady) 0 0 (sampleOrder 121 Ready None) = Some 0
   \<and> (\<exists>res. getAvailableOrders (sampleDb twentyOneReady) driverUser (Some 0) (Some 0) = Inr res
         \<and> length res \<le> 20 \<and> sampleOrder 121 Ready None \<notin> fst ` set res)"
proof -
  let ?D = "sampleDb twentyOneReady" and ?x = "sampleOrder 121 Ready None"
  have h: "distinct (map o_id (orders ?D))"
    "length (filter readyUnassigned (orders ?D)) = 21"
    "?x \<in> set (drop 20 (filter readyUnassigned (orders ?D)))"
    "distanceTo ?D 0 0 ?x = Some 0"
    by (simp_all add: twentyOneReady_facts)
  from twentyOneReady_succeeds obtain res where
    r: "getAvailableOrders ?D driverUser (Some 0) (Some 0) = Inr res" by blast
  from C10_candidates_first_twenty [where d = ?D and u = driverUser and lat = "Some 0"
      and lng = "Some 0", THEN conjunct1, rule_format, OF r]
  have "length res \<le> 20 \<and> ?x \<notin> fst ` set res" using h(1,3) by blast
  with h r show ?thesis by blast
qed

















section \<open>The status history\<close>

lemma find_map_other_order:
  "j \<noteq> i \<Longrightarrow> o_id y = i \<Longrightarrow>
   find (\<lambda>x. o_id x = j) (map (\<lambda>x. if o_id x = i then y else x) xs) = find (\<lambda>x. o_id x = j) xs"
  by (induction xs) auto

lemma findOrder_other_save:
  "j \<noteq> o_id doc \<Longrightarrow> findOrder (snd (save now l doc d)) j = findOrder d j"
  by (simp add: save_eq findOrder_def find_map_other_order)

lemma findOrder_updateRestaurant [simp]: "findOrder (updateRestaurant i f d) j = findOrder d j"
  by (simp add: findOrder_def updateRestaurant_def)

lemma statusHistory_save:
  "statusHistory (fst (save now l doc d))
     = statusHistory doc
       @ (if status doc = status l then [] else [\<lparr>h_status = status doc, h_timestamp = now\<rparr>])"
  by (simp add: save_eq pre_save_statusHistory_def isModified_status_def)

lemma status_save [simp]: "status (fst (save now l doc d)) = status doc"
  by (simp add: save_eq)

lemma stampTimestamps_keeps [simp]:
  "o_id (stampTimestamps st now x) = o_id x"
  "status (stampTimestamps st now x) = status x"
  "statusHistory (stampTimestamps st now x) = statusHistory x"
  by (simp_all add: stampTimestamps_def Let_def)

lemma perform_saved:
  assumes "perform a d u oid now = (Inr ord', d')" and "findOrder d oid = Some ord"
  obtains doc d1 where "save now ord doc d = (ord', d1)" "o_id doc = oid"
    "status doc = statusSetBy a" "statusHistory doc = statusHistory ord"
    "\<forall>j. findOrder d' j = findOrder d1 j"
proof -
  from assms(2) have oid: "o_id ord = oid" by (rule findOrder_Some_id)
  show ?thesis
  proof (cases a)
    case (UpdateStatus st)
    with assms oid have "save now ord (stampTimestamps st now (ord\<lparr>status := st\<rparr>)) d = (ord', d')"
      by (auto simp: perform_def updateOrderStatus_def split: option.splits if_splits prod.splits)
    then show ?thesis using oid UpdateStatus
      by (intro that [of "stampTimestamps st now (ord\<lparr>status := st\<rparr>)" d'])
         (simp_all add: statusSetBy_def)
  next
    case (Cancel why)
    with assms oid obtain c where
      "save now ord (ord\<lparr>status := Cancelled, cancellation := c\<rparr>) d = (ord', d')"
      by (auto simp: perform_def cancelOrder_def Let_def
          split: option.splits if_splits prod.splits)
    then show ?thesis using oid Cancel
      by (intro that [of "ord\<lparr>status := Cancelled, cancellation := c\<rparr>" d'])
         (simp_all add: statusSetBy_def)
  next
    case Accept
    with assms oid obtain d1 where
      "save now ord (ord\<lparr>driver := Some (req_id u), status := Assigned\<rparr>) d = (ord', d1)"
      "d' = updateUser (req_id u) (\<lambda>x. x\<lparr>isAvailable := False\<rparr>) d1"
      by (auto simp: perform_def acceptOrder_def split: option.splits if_splits prod.splits)
    then show ?thesis using oid Accept
      by (intro that [of "ord\<lparr>driver := Some (req_id u), status := Assigned\<rparr>" d1])
         (simp_all add: statusSetBy_def)
  next
    case Pickup
    with assms oid have
      "save now ord (ord\<lparr>status := PickedUp, pickedUpAt := Some now\<rparr>) d = (ord', d')"
      by (auto simp: perform_def pickupOrder_def split: option.splits if_splits prod.splits)
    then show ?thesis using oid Pickup
      by (intro that [of "ord\<lparr>status := PickedUp, pickedUpAt := Some now\<rparr>" d'])
         (simp_all add: statusSetBy_def)
  next
    case Complete
    with assms oid obtain d1 f g where
      "save now ord (ord\<lparr>status := Delivered, deliveredAt := Some now,
                         payment := (payment ord)\<lparr>p_status := PaymentCompleted,
                                                  paidAt := Some now\<rparr>\<rparr>) d = (ord', d1)"
      "d' = updateRestaurant (restaurant ord') g (updateUser (req_id u) f d1)"
      by (auto simp: perform_def completeDelivery_def Let_def
          split: option.splits if_splits prod.splits)
    then show ?thesis using oid Complete
      by (intro that [of "ord\<lparr>status := Delivered, deliveredAt := Some now,
                         payment := (payment ord)\<lparr>p_status := PaymentCompleted,
                                                  paidAt := Some now\<rparr>\<rparr>" d1])
         (simp_all add: statusSetBy_def)
  qed
qed

lemma perform_step:
  assumes "perform a d u oid now = (Inr ord', d')" and "findOrder d oid = Some ord"
  shows "status ord' = statusSetBy a \<and> findOrder d' oid = Some ord'
       \<and> statusHistory ord'
           = statusHistory ord
             @ (if statusSetBy a = status ord then []
                else [\<lparr>h_status = statusSetBy a, h_timestamp = now\<rparr>])
       \<and> (\<forall>j. j \<noteq> oid \<longrightarrow> findOrder d' j = findOrder d j)"
proof -
  from assms obtain doc d1 where
    s: "save now ord doc d = (ord', d1)" and i: "o_id doc = oid"
    and st: "status doc = statusSetBy a" and h: "statusHistory doc = statusHistory ord"
    and f: "\<forall>j. findOrder d' j = findOrder d1 j"
    by (rule perform_saved) blast
  from s have e: "ord' = fst (save now ord doc d)" "d1 = snd (save now ord doc d)" by simp_all
  have "findOrder d1 oid = Some ord'"
    unfolding e using findOrder_after_save [of now ord doc d] assms(2) i by simp
  moreover have "\<forall>j. j \<noteq> oid \<longrightarrow> findOrder d1 j = findOrder d j"
    unfolding e using i by (simp add: findOrder_other_save)
  moreover have "status ord' = statusSetBy a" unfolding e by (simp add: st)
  moreover have "statusHistory ord'
           = statusHistory ord
             @ (if statusSetBy a = status ord then []
                else [\<lparr>h_status = statusSetBy a, h_timestamp = now\<rparr>])"
    unfolding e by (simp add: statusHistory_save st h)
  ultimately show ?thesis by (simp add: f)
qed

lemma perform_Inl: "perform a d u oid now = (Inl err, d') \<Longrightarrow> d' = d"
  by (cases a)
     (auto simp: perform_def updateOrderStatus_def cancelOrder_def acceptOrder_def
        pickupOrder_def completeDelivery_def Let_def
        split: option.splits if_splits prod.splits)

lemma perform_Inr_found:
  "perform a d u oid now = (Inr ord', d') \<Longrightarrow> \<exists>ord. findOrder d oid = Some ord"
  by (cases a)
     (auto simp: perform_def updateOrderStatus_def cancelOrder_def acceptOrder_def
        pickupOrder_def completeDelivery_def Let_def
        split: option.splits if_splits prod.splits)

lemma runSteps_history:
  assumes "runSteps d oid steps = Some dn" and "findOrder d oid = Some ord"
  shows "(\<exists>ordn. findOrder dn oid = Some ordn
            \<and> statusHistory ordn = statusHistory ord @ loggedEntries (status ord) steps)
       \<and> (\<forall>j. j \<noteq> oid \<longrightarrow> findOrder dn j = findOrder d j)"
  using assms
proof (induction steps arbitrary: d ord)
  case Nil
  then show ?case by simp
next
  case (Cons step steps)
  obtain a u t where step: "step = (a, u, t)" by (cases step)
  from Cons.prems(1) step obtain ord' d' where
    p: "perform a d u oid t = (Inr ord', d')" and r: "runSteps d' oid steps = Some dn"
    by (auto split: prod.splits sum.splits)
  from perform_step [OF p Cons.prems(2)] have
    s: "status ord' = statusSetBy a" and f: "findOrder d' oid = Some ord'"
    and h: "statusHistory ord'
           = statusHistory ord
             @ (if statusSetBy a = status ord then []
                else [\<lparr>h_status = statusSetBy a, h_timestamp = t\<rparr>])"
    and o: "\<forall>j. j \<noteq> oid \<longrightarrow> findOrder d' j = findOrder d j"
    by simp_all
  from Cons.IH [OF r f] s h o step show ?case by auto
qed

lemma orders_updateMenuItem [simp]: "orders (updateMenuItem i f d) = orders d"
  by (simp add: updateMenuItem_def)

lemma orders_bumpPopularity [simp]: "orders (bumpPopularity its d) = orders d"
proof -
  have "orders (foldl (\<lambda>d' it. updateMenuItem (oi_menuItem it) (g it) d') d its) = orders d"
    for g :: "orderItem \<Rightarrow> menuItem \<Rightarrow> menuItem"
    by (induction its arbitrary: d) simp_all
  then show ?thesis by (simp add: bumpPopularity_def)
qed

lemma findOrder_bumpPopularity [simp]: "findOrder (bumpPopularity its d) j = findOrder d j"
  by (simp add: findOrder_def)

lemma createDoc_Some:
  assumes "createDoc now doc d = Some (ord', d')"
  shows "ord' = doc \<and> findOrder d (o_id doc) = None \<and> orders d' = orders d @ [doc]"
  using assms
  by (auto simp: createDoc_def pre_save_statusHistory_def Let_def split: if_splits)

lemma find_append_new:
  "find P xs = None \<Longrightarrow> find P (xs @ [y]) = (if P y then Some y else None)"
  by (induction xs) (auto split: if_splits)

lemma find_append_old:
  "\<not> P y \<Longrightarrow> find P (xs @ [y]) = find P xs"
  by (induction xs) auto

lemma createOrder_Inr:
  assumes "createOrder e d u rq newId now = (Inr ord', d')"
  shows "findOrder d' newId = Some ord' \<and> status ord' = Pending \<and> statusHistory ord' = []
       \<and> (\<forall>j. j \<noteq> newId \<longrightarrow> findOrder d' j = findOrder d j)"
proof -
  from assms obtain doc d1 its where
    c: "createDoc now doc d = Some (ord', d1)" and d': "d' = bumpPopularity its d1"
    and doc: "o_id doc = newId" "status doc = Pending" "statusHistory doc = []"
    by (auto simp: createOrder_def Let_def split: option.splits if_splits sum.splits prod.splits)
  from createDoc_Some [OF c] have
    e: "ord' = doc" and n: "findOrder d newId = None" and o: "orders d1 = orders d @ [doc]"
    using doc by simp_all
  have "findOrder d1 newId = Some doc"
    using n o doc by (simp add: findOrder_def find_append_new)
  moreover have "\<forall>j. j \<noteq> newId \<longrightarrow> findOrder d1 j = findOrder d j"
    using o doc by (simp add: findOrder_def find_append_old)
  ultimately show ?thesis using e doc d' by simp
qed

lemma lifecycle_entries:
  "loggedEntries Pending (lifecycleSteps own drv t1 t2 t3 t4 t5 t6)
     = [\<lparr>h_status = Confirmed, h_timestamp = t1\<rparr>, \<lparr>h_status = Preparing, h_timestamp = t2\<rparr>,
        \<lparr>h_status = Ready, h_timestamp = t3\<rparr>, \<lparr>h_status = Assigned, h_timestamp = t4\<rparr>,
        \<lparr>h_status = PickedUp, h_timestamp = t5\<rparr>, \<lparr>h_status = Delivered, h_timestamp = t6\<rparr>]"
  by (simp add: lifecycleSteps_def statusSetBy_def)

lemma fullLifecycle_history:
  assumes "fullLifecycle e d u rq newId t0 steps = Some dn"
  shows "historyAfter (Some dn) newId = Some (loggedEntries Pending steps)"
proof -
  from assms obtain ord0 d0 where
    c: "createOrder e d u rq newId t0 = (Inr ord0, d0)" and r: "runSteps d0 newId steps = Some dn"
    by (auto simp: fullLifecycle_def split: prod.splits sum.splits)
  from createOrder_Inr [OF c] have
    f: "findOrder d0 newId = Some ord0" and s: "status ord0 = Pending"
    and h: "statusHistory ord0 = []" by simp_all
  from runSteps_history [OF r f] s h show ?thesis by (auto simp: historyAfter_def)
qed

lemma sampleLifecycle_succeeds: "\<exists>dn. sampleLifecycle = Some dn"
  by (simp add: sampleLifecycle_def fullLifecycle_def lifecycleSteps_def createOrder_def
        createDoc_def bumpPopularity_def calculatePricing_def reduceSubtotal_def itemPrice_def
        serviceFeeRate_def commissionRate_def surgeMultiplierOf_def envOr_def
        perform_def updateOrderStatus_def acceptOrder_def pickupOrder_def completeDelivery_def
        handler_eval sample_defs)

text \<open>
  C7, as stated, has the full lifecycle leave seven entries, the first of them pending.
  Placing the order appends nothing: the status pending is the schema default, not an
  assignment, so the hook sees no modified status. The lifecycle of the sample order
  leaves the six entries of its six status changes.
\<close>

theorem C7_six_entries_counterexample:
  "historyAfter sampleLifecycle 100
     = Some [\<lparr>h_status = Confirmed, h_timestamp = 20\<rparr>,
             \<lparr>h_status = Preparing, h_timestamp = 30\<rparr>,
             \<lparr>h_status = Ready, h_timestamp = 40\<rparr>,
             \<lparr>h_status = Assigned, h_timestamp = 50\<rparr>,
             \<lparr>h_status = PickedUp, h_timestamp = 60\<rparr>,
             \<lparr>h_status = Delivered, h_timestamp = 70\<rparr>]
   \<and> map_option length (historyAfter sampleLifecycle 100) \<noteq> Some 7"
proof -
  from sampleLifecycle_succeeds obtain dn where dn: "sampleLifecycle = Some dn" by blast
  then have "fullLifecycle sampleEnv (sampleDb []) customerUser (soupRequest 3) 100 10
               (lifecycleSteps ownerUser driverUser 20 30 40 50 60 70) = Some dn"
    by (simp add: sampleLifecycle_def)
  from fullLifecycle_history [OF this] show ?thesis
    by (simp add: dn lifecycle_entries)
qed

text \<open>
  C7, amended. Over every sequence of successful requests on an order, the stored
  status history is the history before, followed by one entry (the new status, the time of
  the request) for each request that changed the status, in the order of the requests;
  no entry is removed or rewritten, and the other orders are as they were. Placing an
  order stores it in status pending with an empty history. A full lifecycle (placed,
  confirmed, preparing, ready, assigned, picked-up, delivered) leaves exactly six entries,
  confirmed to delivered in that order, with non-decreasing timestamps when the clock
  readings of the six requests are non-decreasing.
\<close>

theorem C7_statusHistory:
  "(\<forall>ord dn. findOrder d oid = Some ord \<and> runSteps d oid steps = Some dn \<longrightarrow>
       (\<exists>ordn. findOrder dn oid = Some ordn
          \<and> statusHistory ordn = statusHistory ord @ loggedEntries (status ord) steps)
     \<and> (\<forall>j. j \<noteq> oid \<longrightarrow> findOrder dn j = findOrder d j))
   \<and> (\<forall>ord' d'. createOrder e d u rq newId t0 = (Inr ord', d') \<longrightarrow>
         findOrder d' newId = Some ord' \<and> status ord' = Pending \<and> statusHistory ord' = []
       \<and> (\<forall>j. j \<noteq> newId \<longrightarrow> findOrder d' j = findOrder d j))
   \<and> (\<forall>dn. fullLifecycle e d u rq newId t0 (lifecycleSteps own drv t1 t2 t3 t4 t5 t6) = Some dn \<longrightarrow>
         historyAfter (Some dn) newId
           = Some [\<lparr>h_status = Confirmed, h_timestamp = t1\<rparr>,
                   \<lparr>h_status = Preparing, h_timestamp = t2\<rparr>,
                   \<lparr>h_status = Ready, h_timestamp = t3\<rparr>,
                   \<lparr>h_status = Assigned, h_timestamp = t4\<rparr>,
                   \<lparr>h_status = PickedUp, h_timestamp = t5\<rparr>,
                   \<lparr>h_status = Delivered, h_timestamp = t6\<rparr>]
       \<and> (sorted [t1, t2, t3, t4, t5, t6] \<longrightarrow>
            (\<exists>h. historyAfter (Some dn) newId = Some h \<and> length h = 6
                  \<and> sorted (map h_timestamp h))))"
proof (intro conjI allI impI)
  fix ord dn assume "findOrder d oid = Some ord \<and> runSteps d oid steps = Some dn"
  then have "(\<exists>ordn. findOrder dn oid = Some ordn
          \<and> statusHistory ordn = statusHistory ord @ loggedEntries (status ord) steps)
     \<and> (\<forall>j. j \<noteq> oid \<longrightarrow> findOrder dn j = findOrder d j)"
    using runSteps_history by blast
  then show "\<exists>ordn. findOrder dn oid = Some ordn
          \<and> statusHistory ordn = statusHistory ord @ loggedEntries (status ord) steps"
    and "\<And>j. j \<noteq> oid \<Longrightarrow> findOrder dn j = findOrder d j"
    by blast+
next
  fix ord' d' assume "createOrder e d u rq newId t0 = (Inr ord', d')"
  from createOrder_Inr [OF this]
  show "findOrder d' newId = Some ord'" "status ord' = Pending" "statusHistory ord' = []"
    and "\<And>j. j \<noteq> newId \<Longrightarrow> findOrder d' j = findOrder d j"
    by blast+
next
  fix dn
  assume a: "fullLifecycle e d u rq newId t0 (lifecycleSteps own drv t1 t2 t3 t4 t5 t6) = Some dn"
  from fullLifecycle_history [OF a]
  show h: "historyAfter (Some dn) newId
           = Some [\<lparr>h_status = Confirmed, h_timestamp = t1\<rparr>,
                   \<lparr>h_status = Preparing, h_timestamp = t2\<rparr>,
                   \<lparr>h_status = Ready, h_timestamp = t3\<rparr>,
                   \<lparr>h_status = Assigned, h_timestamp = t4\<rparr>,
                   \<lparr>h_status = PickedUp, h_timestamp = t5\<rparr>,
                   \<lparr>h_status = Delivered, h_timestamp = t6\<rparr>]"
    by (simp add: lifecycle_entries)
  assume "sorted [t1, t2, t3, t4, t5, t6]"
  with h show "\<exists>h. historyAfter (Some dn) newId = Some h \<and> length h = 6
                  \<and> sorted (map h_timestamp h)"
    by simp
qed

lemma acceptStep_succeeds:
  "\<exists>dn. runSteps (sampleDb [sampleOrder 100 Ready None]) 100 [(Accept, driverUser, 5)] = Some dn"
  by (simp add: perform_def acceptOrder_def handler_eval sample_defs)

lemma samplePlacement_succeeds:
  "\<exists>ord' d'. createOrder sampleEnv (sampleDb []) customerUser (soupRequest 3) 100 10 = (Inr ord', d')"
  by (simp add: createOrder_def createDoc_def bumpPopularity_def calculatePricing_def
        reduceSubtotal_def itemPrice_def serviceFeeRate_def commissionRate_def
        surgeMultiplierOf_def envOr_def handler_eval sample_defs)

theorem C7_statusHistory_witness:
  "(\<exists>dn. runSteps (sampleDb [sampleOrder 100 Ready None]) 100 [(Accept, driverUser, 5)] = Some dn
        \<and> historyAfter (Some dn) 100 = Some [\<lparr>h_status = Assigned, h_timestamp = 5\<rparr>])
   \<and> (\<exists>ord' d'. createOrder sampleEnv (sampleDb []) customerUser (soupRequest 3) 100 10
                     = (Inr ord', d')
        \<and> findOrder d' 100 = Some ord' \<and> status ord' = Pending \<and> statusHistory ord' = [])
   \<and> (\<exists>dn. sampleLifecycle = Some dn)
   \<and> sorted [20, 30, 40, 50, 60, 70 :: nat]
   \<and> (\<exists>h. historyAfter sampleLifecycle 100 = Some h \<and> length h = 6
          \<and> sorted (map h_timestamp h))"
proof -
  note T1 = C7_statusHistory [where d = "sampleDb [sampleOrder 100 Ready None]" and oid = 100
      and steps = "[(Accept, driverUser, 5)]", THEN conjunct1, rule_format]
  note T2 = C7_statusHistory [where d = "sampleDb []" and e = sampleEnv and u = customerUser
      and rq = "soupRequest 3" and newId = 100 and ?t0.0 = 10,
      THEN conjunct2, THEN conjunct1, rule_format]
  note T3 = C7_statusHistory [where d = "sampleDb []" and e = sampleEnv and u = customerUser
      and rq = "soupRequest 3" and newId = 100 and ?t0.0 = 10 and own = ownerUser
      and drv = driverUser and ?t1.0 = 20 and ?t2.0 = 30 and ?t3.0 = 40 and ?t4.0 = 50
      and ?t5.0 = 60 and ?t6.0 = 70, THEN conjunct2, THEN conjunct2, rule_format]
  have f: "findOrder (sampleDb [sampleOrder 100 Ready None]) 100 = Some (sampleOrder 100 Ready None)"
    by (simp add: findOrder_def sampleDb_def sampleOrder_def)
  from acceptStep_succeeds obtain dn1 where
    r1: "runSteps (sampleDb [sampleOrder 100 Ready None]) 100 [(Accept, driverUser, 5)] = Some dn1"
    by blast
  from T1 [OF conjI [OF f r1]] have
    "historyAfter (Some dn1) 100 = Some [\<lparr>h_status = Assigned, h_timestamp = 5\<rparr>]"
    by (auto simp: historyAfter_def statusSetBy_def sampleOrder_def)
  with r1 have A: "\<exists>dn. runSteps (sampleDb [sampleOrder 100 Ready None]) 100
                        [(Accept, driverUser, 5)] = Some dn
        \<and> historyAfter (Some dn) 100 = Some [\<lparr>h_status = Assigned, h_timestamp = 5\<rparr>]"
    by blast
  from samplePlacement_succeeds obtain ord' d' where
    c: "createOrder sampleEnv (sampleDb []) customerUser (soupRequest 3) 100 10 = (Inr ord', d')"
    by blast
  from T2 [OF c] c have B: "\<exists>ord' d'. createOrder sampleEnv (sampleDb []) customerUser
                     (soupRequest 3) 100 10 = (Inr ord', d')
        \<and> findOrder d' 100 = Some ord' \<and> status ord' = Pending \<and> statusHistory ord' = []"
    by blast
  from sampleLifecycle_succeeds obtain dn where dn: "sampleLifecycle = Some dn" by blast
  then have l: "fullLifecycle sampleEnv (sampleDb []) customerUser (soupRequest 3) 100 10
               (lifecycleSteps ownerUser driverUser 20 30 40 50 60 70) = Some dn"
    by (simp add: sampleLifecycle_def)
  have s: "sorted [20, 30, 40, 50, 60, 70 :: nat]" by simp
  from T3 [OF l] s have "\<exists>h. historyAfter sampleLifecycle 100 = Some h \<and> length h = 6
          \<and> sorted (map h_timestamp h)"
    unfolding dn by blast
  with A B dn s show ?thesis by blast
qed

end
